theory Spec2Isabelle
  imports Main
begin

section \<open>Data model\<close>

text \<open>
  The entities of \<^verbatim>\<open>types/routine\<close> as the hook and the service use them. A marker that
  JavaScript leaves \<^verbatim>\<open>undefined\<close> is \<open>False\<close>; a marker set to \<^verbatim>\<open>true\<close> is \<open>True\<close>.
  An absent \<^verbatim>\<open>slots\<close> array and an empty one are both \<open>[]\<close>: the code never tells them
  apart (\<^verbatim>\<open>r.slots && r.slots.length > 0\<close>, \<^verbatim>\<open>routine.slots || []\<close>).
\<close>

record slot =
  s_id :: string
  s_routineId :: string
  s_dayOfWeek :: string
  s_startTime :: string
  s_endTime :: string
  s_roomNumber :: string
  s_section :: string
  s_courseId :: string
  s_teacherId :: string
  s_courseName :: string
  s_courseCode :: string
  s_teacherName :: string
  s_createdAt :: string
  s_isOffline :: bool
  s_isOfflineUpdated :: bool
  s_isOfflineDeleted :: bool

record routine =
  r_id :: string
  r_name :: string
  r_description :: string
  r_semester :: string
  r_isActive :: bool
  r_createdAt :: string
  r_createdBy :: string
  r_slots :: "slot list"
  r_isOffline :: bool
  r_isOfflineUpdated :: bool
  r_isOfflineDeleted :: bool
  r_needsActivationSync :: bool
  r_needsDeactivationSync :: bool

text \<open>The fields \<^verbatim>\<open>createRoutine\<close> and \<^verbatim>\<open>updateRoutine\<close> of the service send to the backend.\<close>

record routine_fields =
  f_name :: string
  f_description :: string
  f_semester :: string
  f_isActive :: bool

definition fields_of :: "routine \<Rightarrow> routine_fields" where
  "fields_of r = \<lparr>f_name = r_name r, f_description = r_description r,
     f_semester = r_semester r, f_isActive = r_isActive r\<rparr>"

section \<open>Remote Gateway\<close>

text \<open>
  Every call the hook makes to \<^verbatim>\<open>services/routine.service\<close>, and every query it
  sends to the backend itself, is one value of \<open>call\<close>, with the identifiers and the
  payload it is given. The hook state records the calls in
  the order they are issued.
\<close>

datatype call =
    FetchRoutines
  | CreateRoutine routine_fields
  | UpdateRoutine string routine_fields
  | DeleteRoutine string
  | ActivateRoutine string
  | DeactivateRoutine string
  | AddRoutineSlot string slot
  | UpdateRoutineSlot string string slot
  | DeleteRoutineSlot string string
  | BulkImportRoutineSlots string
  | SelectSlots string
  | SelectRoutines
  | SelectLookups

text \<open>
  The backend is not part of the repository. What a service call answers is a parameter:
  \<open>svc_error\<close> is the message of the exception the call throws (\<open>None\<close> when it
  returns), and the other fields are the entities a returning call hands back. Each answer
  may depend on all the calls issued before.
\<close>

record gateway =
  svc_error :: "call list \<Rightarrow> call \<Rightarrow> string option"
  svc_routine :: "call list \<Rightarrow> routine_fields \<Rightarrow> routine"
  svc_slot :: "call list \<Rightarrow> string \<Rightarrow> slot \<Rightarrow> slot"
  svc_fetch :: "call list \<Rightarrow> routine list"
  svc_slots :: "call list \<Rightarrow> string \<Rightarrow> slot list"
  svc_courses :: "call list \<Rightarrow> (string \<times> string \<times> string) list"
  svc_teachers :: "call list \<Rightarrow> (string \<times> string) list"

section \<open>Local Store\<close>

text \<open>
  Modelled from the spec: \<^verbatim>\<open>utils/offlineStorage\<close> (\<^verbatim>\<open>saveToIndexedDB\<close>,
  \<^verbatim>\<open>getAllFromIndexedDB\<close>, \<^verbatim>\<open>clearIndexedDBStore\<close>) is not among the sources. The spec
  describes a durable collection keyed by entity id whose writes are whole-item
  replacements: saving an item replaces the stored item with the same id, or adds it when
  the id is new; saving an array saves each item; nothing is removed by a save. The
  store is the list \<^verbatim>\<open>getAllFromIndexedDB\<close> returns.
\<close>

type_synonym local_store = "routine list"

definition saveToIndexedDB :: "routine \<Rightarrow> local_store \<Rightarrow> local_store" where
  "saveToIndexedDB r st =
     (if r_id r \<in> r_id ` set st
      then map (\<lambda>x. if r_id x = r_id r then r else x) st
      else st @ [r])"

definition saveAllToIndexedDB :: "routine list \<Rightarrow> local_store \<Rightarrow> local_store" where
  "saveAllToIndexedDB rs st = foldl (\<lambda>acc r. saveToIndexedDB r acc) st rs"

definition clearIndexedDBStore :: "local_store \<Rightarrow> local_store" where
  "clearIndexedDBStore st = []"

section \<open>State of the \<^verbatim>\<open>useRoutines\<close> hook\<close>

text \<open>
  The React state of the hook (\<open>routines\<close>, \<open>loading\<close>, \<open>error\<close>,
  \<open>syncInProgress\<close>, \<open>diagnosed\<close> for a diagnostic state that has been set), the Local
  Store, the freshness timestamp kept in \<^verbatim>\<open>localStorage\<close> and the trace of service calls.
\<close>

record hook =
  routines :: "routine list"
  loading :: bool
  error :: "string option"
  syncInProgress :: bool
  diagnosed :: bool
  store :: local_store
  lastFetched :: "int option"
  calls :: "call list"

text \<open>One service call: it is appended to the trace, and the gateway decides its answer.\<close>

definition issue :: "gateway \<Rightarrow> call \<Rightarrow> hook \<Rightarrow> string option \<times> hook" where
  "issue gw c h = (svc_error gw (calls h) c, h\<lparr>calls := calls h @ [c]\<rparr>)"

text \<open>
  The entity a returning \<^verbatim>\<open>createRoutine\<close> of the service builds from the inserted row: no
  slots and no marker. Likewise the slot \<^verbatim>\<open>addRoutineSlot\<close> returns carries no marker.
\<close>

definition fromRow :: "routine \<Rightarrow> routine" where
  "fromRow r = r\<lparr>r_slots := [], r_isOffline := False, r_isOfflineUpdated := False,
     r_isOfflineDeleted := False, r_needsActivationSync := False,
     r_needsDeactivationSync := False\<rparr>"

definition fromSlotRow :: "slot \<Rightarrow> slot" where
  "fromSlotRow s = s\<lparr>s_isOffline := False, s_isOfflineUpdated := False, s_isOfflineDeleted := False\<rparr>"

section \<open>Routine and Slot operations of the hook\<close>

text \<open>
  \<^verbatim>\<open>createRoutine\<close>. Offline, the temporary id is
  \<^verbatim>\<open>`temp-${Date.now()}-${Math.random().toString(36).substring(2, 9)}`\<close>; the two
  environment values are the parameters \<open>now\<close> and \<open>rnd\<close>, already as text. The result
  is the final state with the thrown message or the routine returned.
\<close>

definition tempId :: "string \<Rightarrow> string \<Rightarrow> string" where
  "tempId now rnd = ''temp-'' @ now @ ''-'' @ rnd"

definition createRoutine ::
  "gateway \<Rightarrow> bool \<Rightarrow> string \<Rightarrow> string \<Rightarrow> string \<Rightarrow> routine \<Rightarrow> hook \<Rightarrow> hook \<times> (string + routine)" where
  "createRoutine gw isOffline now rnd stamp routine h0 =
     (let h = h0\<lparr>error := None\<rparr> in
      if isOffline then
        (let offlineRoutine = routine\<lparr>r_id := tempId now rnd, r_createdAt := stamp,
               r_slots := [], r_isOffline := True\<rparr>
         in (h\<lparr>store := saveToIndexedDB offlineRoutine (store h),
                 routines := offlineRoutine # routines h\<rparr>, Inr offlineRoutine))
      else
        (case issue gw (CreateRoutine (fields_of routine)) h of
           (Some msg, h1) \<Rightarrow> (h1\<lparr>error := Some msg\<rparr>, Inl msg)
         | (None, h1) \<Rightarrow>
             (let newRoutine = fromRow (svc_routine gw (calls h) (fields_of routine))
              in (h1\<lparr>routines := newRoutine # routines h1,
                      store := saveToIndexedDB newRoutine (store h1)\<rparr>, Inr newRoutine))))"

text \<open>
  \<^verbatim>\<open>deleteRoutine\<close>. Offline, the stored routine with this id is saved again with
  \<^verbatim>\<open>_isOfflineDeleted: true\<close>, whatever its other markers are, and the routine leaves the
  React state. Online, the service is called; after it returns the routine leaves the React
  state, the store is cleared and the remaining routines are saved back, and the
  timestamp is set to \<open>now\<close>.
\<close>

definition deleteRoutine :: "gateway \<Rightarrow> bool \<Rightarrow> int \<Rightarrow> string \<Rightarrow> hook \<Rightarrow> hook \<times> (string + unit)" where
  "deleteRoutine gw isOffline now ident h0 =
     (let h = h0\<lparr>error := None\<rparr> in
      if isOffline then
        (let existingRoutines = store h;
             h1 = (case find (\<lambda>r. r_id r = ident) existingRoutines of
                     Some routineToDelete \<Rightarrow>
                       h\<lparr>store := saveToIndexedDB (routineToDelete\<lparr>r_isOfflineDeleted := True\<rparr>) (store h)\<rparr>
                   | None \<Rightarrow> h)
         in (h1\<lparr>routines := filter (\<lambda>r. r_id r \<noteq> ident) (routines h1)\<rparr>, Inr ()))
      else
        (case issue gw (DeleteRoutine ident) h of
           (Some msg, h1) \<Rightarrow> (h1\<lparr>error := Some msg\<rparr>, Inl msg)
         | (None, h1) \<Rightarrow>
             (let h2 = h1\<lparr>routines := filter (\<lambda>r. r_id r \<noteq> ident) (routines h1)\<rparr>;
                  filteredRoutines = filter (\<lambda>r. r_id r \<noteq> ident) (store h2);
                  cleared = clearIndexedDBStore (store h2);
                  saved = (if length filteredRoutines > 0
                           then saveAllToIndexedDB filteredRoutines cleared else cleared)
              in (h2\<lparr>store := saved, lastFetched := Some now\<rparr>, Inr ()))))"

text \<open>
  \<^verbatim>\<open>deleteRoutineSlot\<close>. Offline, the slot is marked \<^verbatim>\<open>_isOfflineDeleted\<close> and then
  filtered out again when it also carries \<^verbatim>\<open>_isOffline\<close>: a slot created offline is
  removed at once. The updated array of routines is saved as a whole.
\<close>

definition deleteRoutineSlot ::
  "gateway \<Rightarrow> bool \<Rightarrow> string \<Rightarrow> string \<Rightarrow> hook \<Rightarrow> hook \<times> (string + unit)" where
  "deleteRoutineSlot gw isOffline routineId slotId h0 =
     (let h = h0\<lparr>error := None\<rparr>;
          dropSlot = (\<lambda>r. if r_id r = routineId
                          then r\<lparr>r_slots := filter (\<lambda>s. s_id s \<noteq> slotId) (r_slots r)\<rparr> else r)
      in
      if isOffline then
        (let existingRoutines = store h;
             h1 = (case find (\<lambda>r. r_id r = routineId) existingRoutines of
                     Some routine \<Rightarrow>
                       (let updatedSlots =
                              filter (\<lambda>s. \<not> (s_id s = slotId \<and> s_isOffline s))
                                (map (\<lambda>s. if s_id s = slotId then s\<lparr>s_isOfflineDeleted := True\<rparr> else s)
                                   (r_slots routine));
                            updatedRoutine = routine\<lparr>r_slots := updatedSlots\<rparr>;
                            i = length (takeWhile (\<lambda>r. r_id r \<noteq> routineId) existingRoutines)
                        in h\<lparr>store := saveAllToIndexedDB (existingRoutines[i := updatedRoutine]) (store h)\<rparr>)
                   | None \<Rightarrow> h)
         in (h1\<lparr>routines := map dropSlot (routines h1)\<rparr>, Inr ()))
      else
        (case issue gw (DeleteRoutineSlot routineId slotId) h of
           (Some msg, h1) \<Rightarrow> (h1\<lparr>error := Some msg\<rparr>, Inl msg)
         | (None, h1) \<Rightarrow>
             (let h2 = h1\<lparr>routines := map dropSlot (routines h1)\<rparr>;
                  existingRoutines = store h2
              in (case find (\<lambda>r. r_id r = routineId) existingRoutines of
                    Some routine \<Rightarrow>
                      (let i = length (takeWhile (\<lambda>r. r_id r \<noteq> routineId) existingRoutines)
                       in (h2\<lparr>store := saveAllToIndexedDB (existingRoutines[i := dropSlot routine]) (store h2)\<rparr>,
                           Inr ()))
                  | None \<Rightarrow> (h2, Inr ())))))"

text \<open>
  \<^verbatim>\<open>activateRoutine\<close> of the hook. Offline, every routine of the React state and of the
  store gets \<^verbatim>\<open>isActive: routine.id === routineId\<close> and
  \<^verbatim>\<open>_needsActivationSync: routine.id === routineId ? true : undefined\<close>. Online, the service
  is called first; when it throws nothing local is written.
\<close>

definition activateRoutine :: "gateway \<Rightarrow> bool \<Rightarrow> string \<Rightarrow> hook \<Rightarrow> hook \<times> (string + unit)" where
  "activateRoutine gw isOffline routineId h0 =
     (let h = h0\<lparr>error := None\<rparr> in
      if isOffline then
        (let mark = (\<lambda>r. r\<lparr>r_isActive := (r_id r = routineId),
                              r_needsActivationSync := (r_id r = routineId)\<rparr>);
             h1 = h\<lparr>routines := map mark (routines h)\<rparr>;
             existingRoutines = store h1;
             updatedRoutines = map mark existingRoutines
         in (h1\<lparr>store := saveAllToIndexedDB updatedRoutines (store h1)\<rparr>, Inr ()))
      else
        (case issue gw (ActivateRoutine routineId) h of
           (Some msg, h1) \<Rightarrow> (h1\<lparr>error := Some msg\<rparr>, Inl msg)
         | (None, h1) \<Rightarrow>
             (let mark = (\<lambda>r. r\<lparr>r_isActive := (r_id r = routineId)\<rparr>);
                  h2 = h1\<lparr>routines := map mark (routines h1)\<rparr>;
                  existingRoutines = store h2;
                  updatedRoutines = map mark existingRoutines
              in (h2\<lparr>store := saveAllToIndexedDB updatedRoutines (store h2)\<rparr>, Inr ()))))"

section \<open>Reconciliation: \<^verbatim>\<open>syncOfflineChanges\<close>\<close>

text \<open>\<^verbatim>\<open>Array.prototype.findIndex\<close>: the index of the first element that satisfies \<open>P\<close>.\<close>

definition findIndex :: "('a \<Rightarrow> bool) \<Rightarrow> 'a list \<Rightarrow> nat option" where
  "findIndex P xs =
     (let i = length (takeWhile (\<lambda>x. \<not> P x) xs) in if i < length xs then Some i else None)"

text \<open>
  The payloads of the slot calls: \<^verbatim>\<open>const { _isOffline, id, routineId, createdAt, ...slotData }\<close>
  for a new slot and \<^verbatim>\<open>const { _isOfflineUpdated, _isOffline, ...slotData }\<close> for an updated
  one. A field taken out of the payload is the empty string or \<open>False\<close>.
\<close>

definition newSlotData :: "slot \<Rightarrow> slot" where
  "newSlotData s = s\<lparr>s_isOffline := False, s_id := [], s_routineId := [], s_createdAt := []\<rparr>"

definition updatedSlotData :: "slot \<Rightarrow> slot" where
  "updatedSlotData s = s\<lparr>s_isOfflineUpdated := False, s_isOffline := False\<rparr>"

text \<open>The variables of the loop over the slots of one routine.\<close>

record slot_pass =
  syncedSlots :: "slot list"
  slotsChanged :: bool
  sp_errors :: nat
  sp_calls :: "call list"

definition syncSlot :: "gateway \<Rightarrow> routine \<Rightarrow> slot_pass \<Rightarrow> slot \<Rightarrow> slot_pass" where
  "syncSlot gw routine sp slot =
     (if \<not> s_isOffline slot \<and> \<not> s_isOfflineUpdated slot \<and> \<not> s_isOfflineDeleted slot then sp
      else if s_isOfflineDeleted slot then
        (let c = DeleteRoutineSlot (r_id routine) (s_id slot);
             sp1 = sp\<lparr>sp_calls := sp_calls sp @ [c]\<rparr>
         in case svc_error gw (sp_calls sp) c of
              Some msg \<Rightarrow> sp1\<lparr>sp_errors := sp_errors sp1 + 1\<rparr>
            | None \<Rightarrow>
                (case findIndex (\<lambda>s. s_id s = s_id slot) (syncedSlots sp1) of
                   Some i \<Rightarrow> sp1\<lparr>syncedSlots := take i (syncedSlots sp1) @ drop (Suc i) (syncedSlots sp1),
                               slotsChanged := True\<rparr>
                 | None \<Rightarrow> sp1))
      else if s_isOffline slot then
        (let c = AddRoutineSlot (r_id routine) (newSlotData slot);
             sp1 = sp\<lparr>sp_calls := sp_calls sp @ [c]\<rparr>
         in case svc_error gw (sp_calls sp) c of
              Some msg \<Rightarrow> sp1\<lparr>sp_errors := sp_errors sp1 + 1\<rparr>
            | None \<Rightarrow>
                (let newSlot = fromSlotRow (svc_slot gw (sp_calls sp) (r_id routine) (newSlotData slot))
                 in case findIndex (\<lambda>s. s_id s = s_id slot) (syncedSlots sp1) of
                      Some i \<Rightarrow> sp1\<lparr>syncedSlots := (syncedSlots sp1)[i := newSlot], slotsChanged := True\<rparr>
                    | None \<Rightarrow> sp1))
      else if s_isOfflineUpdated slot then
        (let c = UpdateRoutineSlot (r_id routine) (s_id slot) (updatedSlotData slot);
             sp1 = sp\<lparr>sp_calls := sp_calls sp @ [c]\<rparr>
         in case svc_error gw (sp_calls sp) c of
              Some msg \<Rightarrow> sp1\<lparr>sp_errors := sp_errors sp1 + 1\<rparr>
            | None \<Rightarrow>
                (case findIndex (\<lambda>s. s_id s = s_id slot) (syncedSlots sp1) of
                   Some i \<Rightarrow> sp1\<lparr>syncedSlots := (syncedSlots sp1)
                                  [i := (updatedSlotData slot)\<lparr>s_id := s_id slot, s_routineId := r_id routine,
                                          s_isOfflineUpdated := False\<rparr>],
                               slotsChanged := True\<rparr>
                 | None \<Rightarrow> sp1))
      else sp)"

text \<open>The variables of the loop over the routines of the store.\<close>

record pass =
  syncedRoutines :: "routine list"
  hasChanges :: bool
  syncErrors :: nat
  p_calls :: "call list"

text \<open>Replace the element at the first index whose id is \<open>ident\<close>, when there is one.\<close>

definition atRoutine :: "string \<Rightarrow> (routine \<Rightarrow> routine) \<Rightarrow> pass \<Rightarrow> pass" where
  "atRoutine ident f p =
     (case findIndex (\<lambda>r. r_id r = ident) (syncedRoutines p) of
        Some i \<Rightarrow> p\<lparr>syncedRoutines := (syncedRoutines p)[i := f (syncedRoutines p ! i)], hasChanges := True\<rparr>
      | None \<Rightarrow> p)"

definition syncActivation :: "gateway \<Rightarrow> routine \<Rightarrow> pass \<Rightarrow> pass" where
  "syncActivation gw routine p =
     (if r_needsActivationSync routine then
        (let c = ActivateRoutine (r_id routine);
             p1 = p\<lparr>p_calls := p_calls p @ [c]\<rparr>
         in case svc_error gw (p_calls p) c of
              Some msg \<Rightarrow> p1\<lparr>syncErrors := syncErrors p1 + 1\<rparr>
            | None \<Rightarrow> atRoutine (r_id routine)
                        (\<lambda>r. r\<lparr>r_isActive := True, r_needsActivationSync := False\<rparr>) p1)
      else if r_needsDeactivationSync routine then
        (let c = DeactivateRoutine (r_id routine);
             p1 = p\<lparr>p_calls := p_calls p @ [c]\<rparr>
         in case svc_error gw (p_calls p) c of
              Some msg \<Rightarrow> p1\<lparr>syncErrors := syncErrors p1 + 1\<rparr>
            | None \<Rightarrow> atRoutine (r_id routine)
                        (\<lambda>r. r\<lparr>r_isActive := False, r_needsDeactivationSync := False\<rparr>) p1)
      else p)"

definition syncUpdate :: "gateway \<Rightarrow> routine \<Rightarrow> pass \<Rightarrow> pass" where
  "syncUpdate gw routine p =
     (if r_isOfflineUpdated routine then
        (let c = UpdateRoutine (r_id routine) (fields_of routine);
             p1 = p\<lparr>p_calls := p_calls p @ [c]\<rparr>
         in case svc_error gw (p_calls p) c of
              Some msg \<Rightarrow> p1\<lparr>syncErrors := syncErrors p1 + 1\<rparr>
            | None \<Rightarrow> atRoutine (r_id routine)
                        (\<lambda>r. r\<lparr>r_id := r_id routine, r_name := r_name routine,
                               r_description := r_description routine, r_semester := r_semester routine,
                               r_isActive := r_isActive routine, r_createdAt := r_createdAt routine,
                               r_createdBy := r_createdBy routine,
                               r_isOfflineDeleted := r_isOfflineDeleted routine,
                               r_isOfflineUpdated := False\<rparr>) p1)
      else p)"

definition syncSlots :: "gateway \<Rightarrow> routine \<Rightarrow> pass \<Rightarrow> pass" where
  "syncSlots gw routine p =
     (if length (r_slots routine) > 0 then
        (let sp = foldl (syncSlot gw routine)
                    \<lparr>syncedSlots = r_slots routine, slotsChanged = False,
                     sp_errors = syncErrors p, sp_calls = p_calls p\<rparr> (r_slots routine);
             p1 = p\<lparr>syncErrors := sp_errors sp, p_calls := sp_calls sp\<rparr>
         in if slotsChanged sp
            then atRoutine (r_id routine) (\<lambda>r. r\<lparr>r_slots := syncedSlots sp\<rparr>) p1
            else p1)
      else p)"

text \<open>
  The body of \<^verbatim>\<open>for (const routine of offlineRoutines)\<close>: the routine is the stored one,
  and the three \<^verbatim>\<open>continue\<close> statements end the iteration after a deletion, after a
  creation, and for a routine with no marker at all.
\<close>

definition syncRoutine :: "gateway \<Rightarrow> pass \<Rightarrow> routine \<Rightarrow> pass" where
  "syncRoutine gw p routine =
     (if \<not> r_isOffline routine \<and> \<not> r_isOfflineUpdated routine \<and> \<not> r_isOfflineDeleted routine
         \<and> \<not> r_needsActivationSync routine \<and> \<not> r_needsDeactivationSync routine
         \<and> \<not> list_ex (\<lambda>s. s_isOffline s \<or> s_isOfflineUpdated s \<or> s_isOfflineDeleted s) (r_slots routine)
      then p
      else if r_isOfflineDeleted routine then
        (let c = DeleteRoutine (r_id routine);
             p1 = p\<lparr>p_calls := p_calls p @ [c]\<rparr>
         in case svc_error gw (p_calls p) c of
              Some msg \<Rightarrow> p1\<lparr>syncErrors := syncErrors p1 + 1\<rparr>
            | None \<Rightarrow> p1\<lparr>syncedRoutines := filter (\<lambda>r. r_id r \<noteq> r_id routine) (syncedRoutines p1),
                         hasChanges := True\<rparr>)
      else
        (let p2 = syncActivation gw routine p in
         if r_isOffline routine then
           (let c = CreateRoutine (fields_of routine);
                p3 = p2\<lparr>p_calls := p_calls p2 @ [c]\<rparr>
            in case svc_error gw (p_calls p2) c of
                 Some msg \<Rightarrow> p3\<lparr>syncErrors := syncErrors p3 + 1\<rparr>
               | None \<Rightarrow>
                   (let newRoutine = fromRow (svc_routine gw (p_calls p2) (fields_of routine))
                    in p3\<lparr>syncedRoutines :=
                             filter (\<lambda>r. r_id r \<noteq> r_id routine) (syncedRoutines p3) @ [newRoutine],
                           hasChanges := True\<rparr>))
         else syncSlots gw routine (syncUpdate gw routine p2)))"

text \<open>
  \<^verbatim>\<open>syncOfflineChanges\<close>. The function is created anew by every render of the hook, and
  its guard \<^verbatim>\<open>if (isOffline || syncInProgress) return\<close> reads the two constants of that
  render: \<open>isOffline\<close> and \<open>inProgress\<close> are the values the render that created the
  function saw, while the \<open>syncInProgress\<close> field of the state is what
  \<^verbatim>\<open>setSyncInProgress\<close> has written since. A pass that runs sets the flag before its
  first \<^verbatim>\<open>await\<close> (\<open>syncBegin\<close>); the rest (\<open>syncPass\<close>) walks the stored
  routines in the order the store returns them, saves the synced routines when anything
  changed (a save, not a clear) and resets the flag.
\<close>

definition syncBegin :: "hook \<Rightarrow> hook" where
  "syncBegin h = h\<lparr>syncInProgress := True\<rparr>"

definition syncPass :: "gateway \<Rightarrow> int \<Rightarrow> hook \<Rightarrow> hook" where
  "syncPass gw now h1 =
     (let offlineRoutines = store h1;
          p = foldl (syncRoutine gw)
                \<lparr>syncedRoutines = offlineRoutines, hasChanges = False, syncErrors = 0,
                 p_calls = calls h1\<rparr> offlineRoutines;
          h2 = h1\<lparr>calls := p_calls p\<rparr>;
          h3 = (if hasChanges p
                then h2\<lparr>store := saveAllToIndexedDB (syncedRoutines p) (store h2),
                        routines := syncedRoutines p, lastFetched := Some now\<rparr>
                else h2)
      in h3\<lparr>syncInProgress := False\<rparr>)"

definition syncOfflineChanges :: "gateway \<Rightarrow> bool \<Rightarrow> bool \<Rightarrow> int \<Rightarrow> hook \<Rightarrow> hook" where
  "syncOfflineChanges gw isOffline inProgress now h =
     (if isOffline \<or> inProgress then h else syncPass gw now (syncBegin h))"

text \<open>The value of \<^verbatim>\<open>syncInProgress\<close> a render of the hook in state \<open>h\<close> hands to the
  functions it creates.\<close>

definition rendered :: "hook \<Rightarrow> bool" where
  "rendered h = syncInProgress h"

text \<open>
  The calls one stored routine makes a pass issue, read off its markers alone: the answers
  of the gateway decide what is written back, never which call comes next.
\<close>

definition slotCalls :: "routine \<Rightarrow> slot \<Rightarrow> call list" where
  "slotCalls routine slot =
     (if s_isOfflineDeleted slot then [DeleteRoutineSlot (r_id routine) (s_id slot)]
      else if s_isOffline slot then [AddRoutineSlot (r_id routine) (newSlotData slot)]
      else if s_isOfflineUpdated slot
        then [UpdateRoutineSlot (r_id routine) (s_id slot) (updatedSlotData slot)]
      else [])"

definition routineCalls :: "routine \<Rightarrow> call list" where
  "routineCalls r =
     (if r_isOfflineDeleted r then [DeleteRoutine (r_id r)]
      else
        (if r_needsActivationSync r then [ActivateRoutine (r_id r)]
         else if r_needsDeactivationSync r then [DeactivateRoutine (r_id r)] else [])
        @ (if r_isOffline r then [CreateRoutine (fields_of r)]
           else (if r_isOfflineUpdated r then [UpdateRoutine (r_id r) (fields_of r)] else [])
                @ concat (map (slotCalls r) (r_slots r))))"

section \<open>Loading: \<^verbatim>\<open>loadRoutines\<close>\<close>

text \<open>
  \<^verbatim>\<open>refreshRoutineSlots\<close>: the slots of one routine are read from the backend together with
  their course and teacher names (one \<open>SelectSlots\<close> call stands for the three queries);
  an error or an empty answer changes nothing, otherwise the slots replace those of the
  routine in the React state and in the store.
\<close>

definition refreshRoutineSlots :: "gateway \<Rightarrow> string \<Rightarrow> hook \<Rightarrow> hook" where
  "refreshRoutineSlots gw routineId h =
     (if routineId = [] then h
      else case issue gw (SelectSlots routineId) h of
             (Some msg, h1) \<Rightarrow> h1
           | (None, h1) \<Rightarrow>
               (let formattedSlots = map fromSlotRow (svc_slots gw (calls h) routineId) in
                if formattedSlots = [] then h1
                else
                  (let put = (\<lambda>r. if r_id r = routineId then r\<lparr>r_slots := formattedSlots\<rparr> else r);
                       h2 = h1\<lparr>routines := map put (routines h1)\<rparr>
                   in h2\<lparr>store := saveAllToIndexedDB (map put (store h2)) (store h2)\<rparr>)))"

text \<open>
  The body of one fetch attempt: \<^verbatim>\<open>fetchRoutines()\<close>, and when routines came back but none
  has a slot, one direct query per routine whose non-empty answer becomes the slots of
  that routine (a failed query is skipped).
\<close>

definition directSlots :: "gateway \<Rightarrow> hook \<times> routine list \<Rightarrow> routine \<Rightarrow> hook \<times> routine list" where
  "directSlots gw acc routine =
     (case acc of (h, done) \<Rightarrow>
        (case issue gw (SelectSlots (r_id routine)) h of
           (Some msg, h1) \<Rightarrow> (h1, done @ [routine])
         | (None, h1) \<Rightarrow>
             (let slots = svc_slots gw (calls h) (r_id routine) in
              if length slots > 0
              then (h1, done @ [routine\<lparr>r_slots :=
                      map (\<lambda>s. (fromSlotRow s)\<lparr>s_routineId := r_id routine, s_courseName := [],
                                   s_courseCode := [], s_teacherName := []\<rparr>) slots\<rparr>])
              else (h1, done @ [routine]))))"

definition fetchAttempt :: "gateway \<Rightarrow> hook \<Rightarrow> hook \<times> (string + routine list)" where
  "fetchAttempt gw h =
     (case issue gw FetchRoutines h of
        (Some msg, h1) \<Rightarrow> (h1, Inl msg)
      | (None, h1) \<Rightarrow>
          (let fetchedData = svc_fetch gw (calls h);
               hasSlots = list_ex (\<lambda>r. length (r_slots r) > 0) fetchedData
           in if \<not> hasSlots \<and> length fetchedData > 0
              then (case foldl (directSlots gw) (h1, []) fetchedData of
                      (h2, fetched) \<Rightarrow> (h2, Inr fetched))
              else (h1, Inr fetchedData)))"

text \<open>
  \<^verbatim>\<open>for (let attempt = 0; attempt < 3 && !fetchSuccess; attempt++)\<close>: at most three
  attempts, the last error kept. The delays between attempts are not modelled.
\<close>

fun fetchWithRetry :: "gateway \<Rightarrow> nat \<Rightarrow> string option \<Rightarrow> hook \<Rightarrow> hook \<times> (string option + routine list)" where
  "fetchWithRetry gw 0 fetchError h = (h, Inl fetchError)"
| "fetchWithRetry gw (Suc n) fetchError h =
     (case fetchAttempt gw h of
        (h1, Inr fetchedData) \<Rightarrow> (h1, Inr fetchedData)
      | (h1, Inl msg) \<Rightarrow> fetchWithRetry gw n (Some msg) h1)"

text \<open>
  \<^verbatim>\<open>isCacheValid\<close>: the cache lasts \<open>window\<close> milliseconds for a regular view and not at
  all for an admin view; a missing timestamp is falsy.
\<close>

definition cacheValid :: "int \<Rightarrow> int \<Rightarrow> bool \<Rightarrow> bool \<Rightarrow> int option \<Rightarrow> bool" where
  "cacheValid window currentTime forceRefresh isAdminView stamp =
     (let cacheDurationMs = (if isAdminView then 0 else window)
      in \<not> isAdminView \<and> \<not> forceRefresh \<and>
         (case stamp of None \<Rightarrow> False
          | Some lastFetchedTimestamp \<Rightarrow> currentTime - lastFetchedTimestamp < cacheDurationMs))"

text \<open>
  The two branches after the attempts. When a fetch succeeded, the routines are
  published, the timestamp is set, the store is cleared and refilled, and the slots of
  the active routine are refreshed when it has none. When all attempts failed, the
  message of the last exception (or the default text when it is empty, as
  \<^verbatim>\<open>fetchError?.message || '...'\<close> says) becomes the error state, then the stored
  routines are published when there are any, then the diagnostics run.
\<close>

definition loadFetched :: "gateway \<Rightarrow> int \<Rightarrow> routine list \<Rightarrow> hook \<Rightarrow> hook" where
  "loadFetched gw currentTime fetchedData h1 =
     (let h2 = h1\<lparr>routines := fetchedData, lastFetched := Some currentTime\<rparr>;
          h3 = h2\<lparr>store := saveAllToIndexedDB fetchedData (clearIndexedDBStore (store h2))\<rparr>
      in case find r_isActive fetchedData of
           Some activeRoutine \<Rightarrow>
             (if length (r_slots activeRoutine) = 0
              then refreshRoutineSlots gw (r_id activeRoutine) h3 else h3)
         | None \<Rightarrow> h3)"

definition loadFailed :: "string option \<Rightarrow> hook \<Rightarrow> hook" where
  "loadFailed fetchError h1 =
     (let msg = (case fetchError of
                   Some m \<Rightarrow> (if m = [] then ''Failed to load routines after multiple attempts'' else m)
                 | None \<Rightarrow> ''Failed to load routines after multiple attempts'');
          h2 = h1\<lparr>error := Some msg\<rparr>;
          offlineRoutines = store h2;
          h3 = (if length offlineRoutines > 0 then h2\<lparr>routines := offlineRoutines\<rparr> else h2)
      in h3\<lparr>diagnosed := True\<rparr>)"

text \<open>
  \<^verbatim>\<open>loadRoutines(forceRefresh, isAdminView)\<close> of the hook with the single fetch
  (\<^verbatim>\<open>part_001\<close>). \<open>currentTime\<close> is \<^verbatim>\<open>Date.now()\<close>. The function never throws: its
  result is the state, and \<^verbatim>\<open>finally\<close> resets \<open>loading\<close> on every path.
\<close>

definition loadRoutines :: "gateway \<Rightarrow> bool \<Rightarrow> int \<Rightarrow> bool \<Rightarrow> bool \<Rightarrow> hook \<Rightarrow> hook" where
  "loadRoutines gw isOffline currentTime forceRefresh0 isAdminView h0 =
     (let h = h0\<lparr>loading := True, error := None\<rparr>;
          forceRefresh = (forceRefresh0 \<or> isAdminView);
          h = (if forceRefresh then h\<lparr>lastFetched := None\<rparr> else h)
      in
      if isOffline then
        (let offlineRoutines = store h in
         (if length offlineRoutines > 0 then h\<lparr>routines := offlineRoutines\<rparr>
          else h\<lparr>routines := []\<rparr>)\<lparr>loading := False\<rparr>)
      else
        (let isCacheValid = cacheValid (5 * 60 * 1000) currentTime forceRefresh isAdminView (lastFetched h);
             cachedRoutines = store h;
             hasSlots = list_ex (\<lambda>r. length (r_slots r) > 0) cachedRoutines
         in
         if isCacheValid \<and> \<not> forceRefresh \<and> length cachedRoutines > 0 \<and> hasSlots
         then h\<lparr>routines := cachedRoutines, loading := False\<rparr>
         else
           (case fetchWithRetry gw 3 None h of
              (h1, Inr fetchedData) \<Rightarrow> (loadFetched gw currentTime fetchedData h1)\<lparr>loading := False\<rparr>
            | (h1, Inl fetchError) \<Rightarrow> (loadFailed fetchError h1)\<lparr>loading := False\<rparr>)))"

section \<open>Loading: the progressive \<^verbatim>\<open>loadRoutines\<close>\<close>

text \<open>
  The other version of the hook (\<^verbatim>\<open>part_000\<close>) keeps the cache for three minutes and
  loads in stages with queries of its own. A query that throws ends the stages and leads
  to the \<^verbatim>\<open>catch\<close> block; a query that answers with an error has no data, which the code
  reads as an empty answer. A slot row is formatted with blank names and no marker.
\<close>

definition formatSlot :: "slot \<Rightarrow> slot" where
  "formatSlot s = (fromSlotRow s)\<lparr>s_courseName := [], s_courseCode := [], s_teacherName := []\<rparr>"

definition setSlots :: "string \<Rightarrow> slot list \<Rightarrow> routine list \<Rightarrow> routine list" where
  "setSlots ident slots rs =
     (case findIndex (\<lambda>r. r_id r = ident) rs of
        Some i \<Rightarrow> rs[i := (rs ! i)\<lparr>r_slots := slots\<rparr>]
      | None \<Rightarrow> rs)"

text \<open>The names of a slot from the fetched courses and teachers; a \<^verbatim>\<open>Map\<close> filled by
  \<^verbatim>\<open>forEach\<close> keeps the last entry of a key.\<close>

definition enrich :: "(string \<times> string \<times> string) list \<Rightarrow> (string \<times> string) list \<Rightarrow> slot \<Rightarrow> slot" where
  "enrich courses teachers slot =
     slot\<lparr>s_courseName := (case map_of (rev courses) (s_courseId slot) of Some c \<Rightarrow> fst c | None \<Rightarrow> []),
          s_courseCode := (case map_of (rev courses) (s_courseId slot) of Some c \<Rightarrow> snd c | None \<Rightarrow> []),
          s_teacherName := (case map_of (rev teachers) (s_teacherId slot) of Some n \<Rightarrow> n | None \<Rightarrow> [])\<rparr>"

text \<open>
  The awaited stages of the \<^verbatim>\<open>try\<close> block: the routines without slots, the slots of
  the active routine, their course and teacher names. The result is the state and the
  message of the exception, if one was thrown. The last stage, the slots of the other
  routines, is a promise the function does not await: it runs after the function has
  returned and is not part of its result.
\<close>

definition progressiveFetch :: "gateway \<Rightarrow> bool \<Rightarrow> hook \<Rightarrow> hook \<times> string option" where
  "progressiveFetch gw forceRefresh h =
     (case issue gw SelectRoutines h of
        (Some msg, h1) \<Rightarrow> (h1, Some msg)
      | (None, h1) \<Rightarrow>
          (let basicRoutines = svc_fetch gw (calls h) in
           if length basicRoutines > 0 then
             (let mappedBasicRoutines = map (\<lambda>r. (fromRow r)\<lparr>r_description := [], r_createdBy := []\<rparr>) basicRoutines;
                  existingRoutines = store h1;
                  hasSlots = list_ex (\<lambda>r. length (r_slots r) > 0) existingRoutines;
                  h2 = h1\<lparr>routines := (if length existingRoutines > 0 \<and> hasSlots \<and> \<not> forceRefresh
                                         then existingRoutines else mappedBasicRoutines)\<rparr>
              in case find r_isActive mappedBasicRoutines of
                   None \<Rightarrow> (h2, None)
                 | Some activeRoutine \<Rightarrow>
                     (case issue gw (SelectSlots (r_id activeRoutine)) h2 of
                        (Some msg, h3) \<Rightarrow> (h3, Some msg)
                      | (None, h3) \<Rightarrow>
                          (let activeSlots = svc_slots gw (calls h2) (r_id activeRoutine) in
                           if length activeSlots > 0 then
                             (let formattedActiveSlots = map formatSlot activeSlots;
                                  updatedRoutines = setSlots (r_id activeRoutine) formattedActiveSlots mappedBasicRoutines;
                                  h4 = h3\<lparr>routines := updatedRoutines\<rparr>
                              in if list_ex (\<lambda>s. s_courseId s \<noteq> [] \<or> s_teacherId s \<noteq> []) formattedActiveSlots
                                 then
                                   (case issue gw SelectLookups h4 of
                                      (Some msg, h5) \<Rightarrow> (h5, Some msg)
                                    | (None, h5) \<Rightarrow>
                                        (let courses = (if list_ex (\<lambda>s. s_courseId s \<noteq> []) formattedActiveSlots
                                                        then svc_courses gw (calls h4) else []);
                                             teachers = (if list_ex (\<lambda>s. s_teacherId s \<noteq> []) formattedActiveSlots
                                                         then svc_teachers gw (calls h4) else []);
                                             enrichedSlots = map (enrich courses teachers) formattedActiveSlots
                                         in (h5\<lparr>routines := setSlots (r_id activeRoutine) enrichedSlots updatedRoutines\<rparr>,
                                             None)))
                                 else (h4, None))
                           else
                             (case find (\<lambda>r. r_id r = r_id activeRoutine) (store h3) of
                                Some existingActive \<Rightarrow>
                                  (if length (r_slots existingActive) > 0
                                   then (h3\<lparr>routines := setSlots (r_id activeRoutine) (r_slots existingActive)
                                                            mappedBasicRoutines\<rparr>, None)
                                   else (h3, None))
                              | None \<Rightarrow> (h3, None)))))
           else (h1\<lparr>routines := []\<rparr>, None)))"

text \<open>
  \<^verbatim>\<open>fixMissingSlotData\<close>, online: the active routine and the inactive routines without
  slots, once per id in the order of their first occurrence, get their slots from one
  query each; a query that throws makes the function return the routines it was given.
\<close>

definition uniqueById :: "routine list \<Rightarrow> routine list" where
  "uniqueById rs =
     map (\<lambda>k. last (filter (\<lambda>r. r_id r = k) rs)) (rev (remdups (rev (map r_id rs))))"

fun fixEach :: "gateway \<Rightarrow> routine list \<Rightarrow> hook \<times> routine list \<Rightarrow> hook \<times> routine list option" where
  "fixEach gw [] acc = (fst acc, Some (snd acc))"
| "fixEach gw (routine # rest) acc =
     (case issue gw (SelectSlots (r_id routine)) (fst acc) of
        (Some msg, h1) \<Rightarrow> (h1, None)
      | (None, h1) \<Rightarrow>
          (let slots = svc_slots gw (calls (fst acc)) (r_id routine)
           in fixEach gw rest
                (h1, if length slots > 0 then setSlots (r_id routine) (map formatSlot slots) (snd acc)
                     else snd acc)))"

definition fixMissingSlotData :: "gateway \<Rightarrow> routine list \<Rightarrow> hook \<Rightarrow> hook \<times> routine list" where
  "fixMissingSlotData gw rs h =
     (if length rs = 0 then (h, rs)
      else
        (let incompleteRoutines = filter (\<lambda>r. length (r_slots r) = 0) rs in
         if length incompleteRoutines = 0 then (h, rs)
         else
           (let routinesToFix = (case find r_isActive rs of Some activeRoutine \<Rightarrow> [activeRoutine] | None \<Rightarrow> [])
                                 @ filter (\<lambda>r. \<not> r_isActive r) incompleteRoutines
            in case fixEach gw (uniqueById routinesToFix) (h, rs) of
                 (h1, Some updatedRoutines) \<Rightarrow> (h1, updatedRoutines)
               | (h1, None) \<Rightarrow> (h1, rs))))"

text \<open>The \<^verbatim>\<open>catch\<close> block of the stages: the stored routines, repaired and saved back, are
  published when there are any; then the diagnostics run and the error state is set.\<close>

definition progressiveFailed :: "gateway \<Rightarrow> string \<Rightarrow> hook \<Rightarrow> hook" where
  "progressiveFailed gw msg h1 =
     (let offlineRoutines = store h1;
          h2 = (if length offlineRoutines > 0 then
                  (case fixMissingSlotData gw offlineRoutines h1 of
                     (h, fixedRoutines) \<Rightarrow>
                       h\<lparr>routines := fixedRoutines, store := saveAllToIndexedDB fixedRoutines (store h)\<rparr>)
                else h1\<lparr>routines := []\<rparr>)
      in h2\<lparr>diagnosed := True, error := Some (if msg = [] then ''Failed to load routines'' else msg)\<rparr>)"

definition loadRoutinesProgressive :: "gateway \<Rightarrow> bool \<Rightarrow> int \<Rightarrow> bool \<Rightarrow> bool \<Rightarrow> hook \<Rightarrow> hook" where
  "loadRoutinesProgressive gw isOffline currentTime forceRefresh0 isAdminView h0 =
     (let h = h0\<lparr>loading := True, error := None\<rparr>;
          forceRefresh = (forceRefresh0 \<or> isAdminView);
          h = (if forceRefresh then h\<lparr>lastFetched := None\<rparr> else h)
      in
      if isOffline then
        (let offlineRoutines = store h in
         (if length offlineRoutines > 0 then h\<lparr>routines := offlineRoutines\<rparr>
          else h\<lparr>routines := []\<rparr>)\<lparr>loading := False\<rparr>)
      else
        (let isCacheValid = cacheValid (3 * 60 * 1000) currentTime forceRefresh isAdminView (lastFetched h);
             cachedRoutines = store h;
             hasSlots = list_ex (\<lambda>r. length (r_slots r) > 0) cachedRoutines
         in
         if isCacheValid \<and> \<not> forceRefresh \<and> length cachedRoutines > 0 \<and> hasSlots
         then h\<lparr>routines := cachedRoutines, loading := False\<rparr>
         else
           (let forceRefresh1 = (forceRefresh \<or> (isCacheValid \<and> length cachedRoutines > 0))
            in case progressiveFetch gw forceRefresh1 h of
                 (h1, None) \<Rightarrow> h1\<lparr>loading := False\<rparr>
               | (h1, Some msg) \<Rightarrow> (progressiveFailed gw msg h1)\<lparr>loading := False\<rparr>)))"

section \<open>The service: \<^verbatim>\<open>activateRoutine\<close>\<close>

text \<open>
  \<^verbatim>\<open>activateRoutine\<close> of \<^verbatim>\<open>routine.service\<close> over the rows of the \<^verbatim>\<open>routines\<close> table.
  It sends two updates: \<^verbatim>\<open>is_active: false\<close> where the id differs from \<open>routineId\<close>,
  then \<^verbatim>\<open>is_active: true\<close> where it is equal. The error each update answers with is a
  parameter; an update that answers with an error changes no row, and the service throws it.
\<close>

definition activateRoutineService ::
  "string option \<Rightarrow> string option \<Rightarrow> string \<Rightarrow> routine list \<Rightarrow> routine list \<times> (string + unit)" where
  "activateRoutineService deactivateError activateError routineId tbl =
     (case deactivateError of
        Some msg \<Rightarrow> (tbl, Inl msg)
      | None \<Rightarrow>
          (let tbl1 = map (\<lambda>r. if r_id r \<noteq> routineId then r\<lparr>r_isActive := False\<rparr> else r) tbl
           in case activateError of
                Some msg \<Rightarrow> (tbl1, Inl msg)
              | None \<Rightarrow> (map (\<lambda>r. if r_id r = routineId then r\<lparr>r_isActive := True\<rparr> else r) tbl1, Inr ())))"

text \<open>A sequence of \<^verbatim>\<open>activateRoutine\<close> calls of the hook, each offline or online, the
  exceptions caught by the caller.\<close>

definition activations :: "gateway \<Rightarrow> (bool \<times> string) list \<Rightarrow> hook \<Rightarrow> hook" where
  "activations gw cs h = foldl (\<lambda>h c. fst (activateRoutine gw (fst c) (snd c) h)) h cs"

section \<open>The service: time strings\<close>

text \<open>
  The JavaScript string operations \<^verbatim>\<open>convertTo24HourFormat\<close> and the import use, on byte
  strings. \<^verbatim>\<open>split\<close> with a one-character separator always returns at least one piece;
  \<^verbatim>\<open>toUpperCase\<close> maps the ASCII letters and \<^verbatim>\<open>trim\<close> removes the ASCII blanks.
\<close>

fun js_split :: "char \<Rightarrow> string \<Rightarrow> string list" where
  "js_split sep [] = [[]]"
| "js_split sep (c # cs) =
     (if c = sep then [] # js_split sep cs
      else (case js_split sep cs of
              piece # pieces \<Rightarrow> (c # piece) # pieces
            | [] \<Rightarrow> [[c]]))"

definition toUpperCase :: "string \<Rightarrow> string" where
  "toUpperCase s =
     map (\<lambda>c. case map_of (zip ''abcdefghijklmnopqrstuvwxyz'' ''ABCDEFGHIJKLMNOPQRSTUVWXYZ'') c of
                 Some u \<Rightarrow> u | None \<Rightarrow> c) s"

definition isSpace :: "char \<Rightarrow> bool" where
  "isSpace c = (c \<in> set [CHR '' '', CHR 0x09, CHR 0x0A, CHR 0x0B, CHR 0x0C, CHR 0x0D])"

definition trim :: "string \<Rightarrow> string" where
  "trim s = rev (dropWhile isSpace (rev (dropWhile isSpace s)))"

definition isDigit :: "char \<Rightarrow> bool" where
  "isDigit c = (c \<in> set ''0123456789'')"

definition digitValue :: "char \<Rightarrow> nat" where
  "digitValue c = length (takeWhile (\<lambda>d. d \<noteq> c) ''0123456789'')"

definition decimal :: "string \<Rightarrow> nat" where
  "decimal s = foldl (\<lambda>n c. 10 * n + digitValue c) 0 s"

fun string_of_nat :: "nat \<Rightarrow> string" where
  "string_of_nat n =
     (if n < 10 then [''0123456789'' ! n]
      else string_of_nat (n div 10) @ [''0123456789'' ! (n mod 10)])"

declare string_of_nat.simps [simp del]

text \<open>
  \<^verbatim>\<open>Number(text)\<close> on the part of its domain the model covers: the empty string is 0, a
  string of at most fifteen decimal digits is its value, and a string that holds a
  letter other than \<open>I\<close>, no digit and no \<open>I\<close> is \<^verbatim>\<open>NaN\<close> (every numeric literal
  of JavaScript holds a digit or the word \<^verbatim>\<open>Infinity\<close>). Any other text (signs, fractions,
  exponents, radix prefixes, \<^verbatim>\<open>Infinity\<close>, long digit strings, other blanks) is \<open>Beyond\<close>
  the model.
\<close>

datatype jsnum = NaN | Num nat | Beyond

definition js_Number :: "string \<Rightarrow> jsnum" where
  "js_Number s =
     (if s = [] then Num 0
      else if list_all isDigit s \<and> length s \<le> 15 then Num (decimal s)
      else if \<not> list_ex isDigit s \<and> CHR ''I'' \<notin> set s
              \<and> list_ex (\<lambda>c. c \<in> set ''abcdefghijklmnopqrstuvwxyzABCDEFGHJKLMNOPQRSTUVWXYZ'') s
        then NaN
      else Beyond)"

definition toString :: "jsnum \<Rightarrow> string" where
  "toString x = (case x of Num n \<Rightarrow> string_of_nat n | _ \<Rightarrow> ''NaN'')"

definition padStart2 :: "string \<Rightarrow> string" where
  "padStart2 s = replicate (2 - length s) CHR ''0'' @ s"

text \<open>
  \<^verbatim>\<open>convertTo24HourFormat\<close>. The \<^verbatim>\<open>try\<close> block throws in two places: at
  \<^verbatim>\<open>amPmPart.toUpperCase()\<close> when the string has no space, and at \<^verbatim>\<open>minutes.toString()\<close>
  when the time part has no colon; the \<^verbatim>\<open>catch\<close> returns the original string. No other
  step throws: \<^verbatim>\<open>NaN\<close> compares false and prints as \<^verbatim>\<open>NaN\<close>. Where an hour or minute
  text is \<open>Beyond\<close> the model of \<^verbatim>\<open>Number\<close>, the result is the parameter \<open>beyond\<close>
  applied to the string.
\<close>

definition convertTo24HourFormat :: "(string \<Rightarrow> string) \<Rightarrow> string \<Rightarrow> string" where
  "convertTo24HourFormat beyond timeString =
     (case js_split CHR '' '' timeString of
        timePart # amPmPart # _ \<Rightarrow>
          (case map js_Number (js_split CHR '':'' timePart) of
             hours # minutes # _ \<Rightarrow>
               (if hours = Beyond \<or> minutes = Beyond then beyond timeString
                else
                  (let hours1 =
                         (if toUpperCase amPmPart = ''PM'' \<and> (case hours of Num n \<Rightarrow> n < 12 | _ \<Rightarrow> False)
                          then (case hours of Num n \<Rightarrow> Num (n + 12) | _ \<Rightarrow> hours)
                          else if toUpperCase amPmPart = ''AM'' \<and> hours = Num 12 then Num 0
                          else hours)
                   in padStart2 (toString hours1) @ '':'' @ padStart2 (toString minutes) @ '':00''))
           | _ \<Rightarrow> timeString)
      | _ \<Rightarrow> timeString)"

section \<open>The service: \<^verbatim>\<open>bulkImportRoutineSlots\<close>\<close>

text \<open>
  A row of the imported JSON. The hook passes \<^verbatim>\<open>any[]\<close>: a property that may be missing
  is an option.
\<close>

record import_row =
  i_day :: string
  i_start_time :: string
  i_end_time :: string
  i_course :: "string option"
  i_course_title :: "string option"
  i_course_code :: "string option"
  i_teacher :: "string option"
  i_room_number :: "string option"
  i_section :: "string option"
  i_teacherId :: "string option"
  i_courseId :: "string option"

text \<open>A row of the \<^verbatim>\<open>routine_slots\<close> table as the import writes it.\<close>

record slot_row =
  c_routine_id :: string
  c_course_id :: "string option"
  c_teacher_id :: "string option"
  c_course_name :: "string option"
  c_teacher_name :: "string option"
  c_day_of_week :: string
  c_start_time :: string
  c_end_time :: string
  c_room_number :: "string option"
  c_section :: "string option"

text \<open>The tables of the backend the import reads and writes: the ids of the routines,
  the courses (id, name, code), the teachers (id, name) and the slots.\<close>

record backend =
  b_routines :: "string list"
  b_courses :: "(string \<times> string \<times> string) list"
  b_teachers :: "(string \<times> string) list"
  b_slots :: "slot_row list"

text \<open>
  What the database decides and the repository does not: its \<^verbatim>\<open>ILIKE\<close> (column value,
  then pattern), its order on time values, and the errors it answers with: for the
  conflict query of the row with a given index, for the insert, and for the second insert
  without the two name columns. A lookup that answers with an error is a lookup that
  finds nothing: the code reads only \<^verbatim>\<open>data\<close>.
\<close>

record postgres =
  ilike :: "string \<Rightarrow> string \<Rightarrow> bool"
  time_le :: "string \<Rightarrow> string \<Rightarrow> bool"
  conflict_error :: "nat \<Rightarrow> bool"
  insert_error :: "string option"
  fallback_error :: "string option"

text \<open>The entries of the \<^verbatim>\<open>errors\<close> array, one constructor per message of the code, with
  the values the message interpolates.\<close>

datatype import_error =
    InvalidRoutineId
  | TimeConflict nat string string string
  | ProcessingError nat
  | DatabaseError string
  | OfflineUnavailable
  | ImportFailed string

record report =
  success :: nat
  errors :: "import_error list"

text \<open>\<^verbatim>\<open>value || null\<close> on an optional string: missing and empty are both \<open>None\<close>.\<close>

definition orNull :: "string option \<Rightarrow> string option" where
  "orNull v = (case v of Some s \<Rightarrow> (if s = [] then None else Some s) | None \<Rightarrow> None)"

definition extractCourseCode :: "string \<Rightarrow> string" where
  "extractCourseCode courseName =
     (let parts = js_split CHR ''-'' courseName
      in if length parts \<ge> 2 then trim (last parts) else trim courseName)"

text \<open>The course of a row: its id and its name, with the cache of looked-up codes.\<close>

definition resolveCourse ::
  "postgres \<Rightarrow> backend \<Rightarrow> import_row \<Rightarrow> (string \<times> string option) list
     \<Rightarrow> (string option \<times> string option) \<times> (string \<times> string option) list" where
  "resolveCourse pg be slot courseCache =
     (case orNull (i_courseId slot) of
        None \<Rightarrow>
          (let (courseCode, courseName) =
                 (case orNull (i_course_code slot) of
                    Some code \<Rightarrow> (trim code, orNull (i_course_title slot))
                  | None \<Rightarrow>
                      (case orNull (i_course slot) of
                         Some course \<Rightarrow>
                           (extractCourseCode course, orNull (Some (trim (hd (js_split CHR ''-'' course)))))
                       | None \<Rightarrow> ([], None)))
           in if length courseCode > 0 then
                (case map_of courseCache courseCode of
                   Some cached \<Rightarrow> ((orNull cached, courseName), courseCache)
                 | None \<Rightarrow>
                     (case find (\<lambda>c. ilike pg (snd (snd c)) courseCode) (b_courses be) of
                        Some course \<Rightarrow>
                          ((orNull (Some (fst course)),
                            (if fst (snd course) = [] then courseName else Some (fst (snd course)))),
                           (courseCode, orNull (Some (fst course))) # courseCache)
                      | None \<Rightarrow> ((None, courseName), (courseCode, None) # courseCache)))
              else ((None, courseName), courseCache))
      | Some courseId \<Rightarrow>
          (case find (\<lambda>c. fst c = courseId) (b_courses be) of
             Some course \<Rightarrow> ((Some courseId, Some (fst (snd course))), courseCache)
           | None \<Rightarrow> ((Some courseId, None), courseCache)))"

text \<open>
  The teacher of a row. Without a given id the code calls \<^verbatim>\<open>slot.teacher.trim()\<close>, which
  throws when the row has no \<^verbatim>\<open>teacher\<close>: the result is \<open>None\<close> then.
\<close>

definition resolveTeacher ::
  "postgres \<Rightarrow> backend \<Rightarrow> import_row \<Rightarrow> (string \<times> string option) list
     \<Rightarrow> ((string option \<times> string option) \<times> (string \<times> string option) list) option" where
  "resolveTeacher pg be slot teacherCache =
     (case orNull (i_teacherId slot) of
        None \<Rightarrow>
          (case i_teacher slot of
             None \<Rightarrow> None
           | Some teacher \<Rightarrow>
               (let teacherNameToSearch = trim teacher
                in case map_of teacherCache teacherNameToSearch of
                     Some cached \<Rightarrow> Some ((orNull cached, Some teacherNameToSearch), teacherCache)
                   | None \<Rightarrow>
                       (let teacherId = (case find (\<lambda>t. ilike pg (snd t) teacherNameToSearch) (b_teachers be) of
                                           Some t \<Rightarrow> orNull (Some (fst t)) | None \<Rightarrow> None)
                        in Some ((teacherId, Some teacherNameToSearch),
                                 (teacherNameToSearch, teacherId) # teacherCache))))
      | Some teacherId \<Rightarrow>
          (case find (\<lambda>t. fst t = teacherId) (b_teachers be) of
             Some t \<Rightarrow> Some ((Some teacherId, Some (snd t)), teacherCache)
           | None \<Rightarrow> Some ((Some teacherId, i_teacher slot), teacherCache)))"

text \<open>
  The conflict query: the stored slots of the routine on the day of the row, filtered by
  \<^verbatim>\<open>.or(`start_time.lte.${endTime},end_time.gte.${startTime}`)\<close>.
\<close>

definition conflicts :: "postgres \<Rightarrow> backend \<Rightarrow> string \<Rightarrow> string \<Rightarrow> string \<Rightarrow> string \<Rightarrow> slot_row list" where
  "conflicts pg be routineId day startTime endTime =
     filter (\<lambda>e. c_routine_id e = routineId \<and> c_day_of_week e = day
                \<and> (time_le pg (c_start_time e) endTime \<or> time_le pg startTime (c_end_time e)))
       (b_slots be)"

text \<open>The variables of the loop over the rows.\<close>

record import_pass =
  courseCache :: "(string \<times> string option) list"
  teacherCache :: "(string \<times> string option) list"
  processedSlots :: "slot_row list"
  ip_errors :: "import_error list"

definition processRow ::
  "postgres \<Rightarrow> (string \<Rightarrow> string) \<Rightarrow> backend \<Rightarrow> string \<Rightarrow> import_pass \<Rightarrow> nat \<times> import_row \<Rightarrow> import_pass" where
  "processRow pg beyond be routineId ip indexed =
     (let index = fst indexed; slot = snd indexed in
      case resolveCourse pg be slot (courseCache ip) of
        ((courseId, courseName), cc) \<Rightarrow>
          (let ip1 = ip\<lparr>courseCache := cc\<rparr> in
           case resolveTeacher pg be slot (teacherCache ip1) of
             None \<Rightarrow> ip1\<lparr>ip_errors := ip_errors ip1 @ [ProcessingError (index + 1)]\<rparr>
           | Some ((teacherId, teacherName), tc) \<Rightarrow>
               (let ip2 = ip1\<lparr>teacherCache := tc\<rparr>;
                    startTime = convertTo24HourFormat beyond (i_start_time slot);
                    endTime = convertTo24HourFormat beyond (i_end_time slot)
                in if \<not> conflict_error pg index
                      \<and> length (conflicts pg be routineId (i_day slot) startTime endTime) > 0
                   then ip2\<lparr>ip_errors := ip_errors ip2 @
                          [TimeConflict (index + 1) (i_day slot) (i_start_time slot) (i_end_time slot)]\<rparr>
                   else ip2\<lparr>processedSlots := processedSlots ip2 @
                          [\<lparr>c_routine_id = routineId, c_course_id = courseId, c_teacher_id = teacherId,
                            c_course_name = courseName, c_teacher_name = teacherName,
                            c_day_of_week = i_day slot, c_start_time = startTime, c_end_time = endTime,
                            c_room_number = orNull (i_room_number slot),
                            c_section = orNull (i_section slot)\<rparr>]\<rparr>)))"

text \<open>A slot row that carries the day of an imported row and its two times as converted.\<close>

definition fromRowOf :: "(string \<Rightarrow> string) \<Rightarrow> import_row \<Rightarrow> slot_row \<Rightarrow> bool" where
  "fromRowOf beyond r x = (c_day_of_week x = i_day r
      \<and> c_start_time x = convertTo24HourFormat beyond (i_start_time r)
      \<and> c_end_time x = convertTo24HourFormat beyond (i_end_time r))"

text \<open>
  \<^verbatim>\<open>bulkImportRoutineSlots\<close>. Every row is checked against the table as it is before the
  import; the rows that pass are inserted together afterwards. Any error of the first
  insert leads to the second insert, without the two name columns.
\<close>

definition bulkImportRoutineSlots ::
  "postgres \<Rightarrow> (string \<Rightarrow> string) \<Rightarrow> string \<Rightarrow> import_row list \<Rightarrow> backend \<Rightarrow> backend \<times> report" where
  "bulkImportRoutineSlots pg beyond routineId slotsData be =
     (if routineId \<notin> set (b_routines be)
      then (be, \<lparr>success = 0, errors = [InvalidRoutineId]\<rparr>)
      else
        (let ip = foldl (processRow pg beyond be routineId)
                    \<lparr>courseCache = [], teacherCache = [], processedSlots = [], ip_errors = []\<rparr>
                    (zip [0 ..< length slotsData] slotsData)
         in if length (processedSlots ip) > 0 then
              (case insert_error pg of
                 None \<Rightarrow> (be\<lparr>b_slots := b_slots be @ processedSlots ip\<rparr>,
                           \<lparr>success = length (processedSlots ip), errors = ip_errors ip\<rparr>)
               | Some columnError \<Rightarrow>
                   (case fallback_error pg of
                      None \<Rightarrow>
                        (be\<lparr>b_slots := b_slots be @
                              map (\<lambda>slot. slot\<lparr>c_course_name := None, c_teacher_name := None\<rparr>) (processedSlots ip)\<rparr>,
                         \<lparr>success = length (processedSlots ip), errors = ip_errors ip\<rparr>)
                    | Some msg \<Rightarrow>
                        (be, \<lparr>success = 0, errors = ip_errors ip @ [DatabaseError msg]\<rparr>)))
            else (be, \<lparr>success = 0, errors = ip_errors ip\<rparr>)))"

text \<open>
  \<^verbatim>\<open>bulkImportSlots\<close> of the hook. Offline it returns at once. Online it calls the service
  and then \<^verbatim>\<open>loadRoutines(true)\<close>; an exception that escapes the service is the answer of
  the gateway to the call, and the \<^verbatim>\<open>catch\<close> turns it into a report.
\<close>

definition bulkImportSlots ::
  "gateway \<Rightarrow> postgres \<Rightarrow> (string \<Rightarrow> string) \<Rightarrow> bool \<Rightarrow> int \<Rightarrow> string \<Rightarrow> import_row list
     \<Rightarrow> hook \<times> backend \<Rightarrow> (hook \<times> backend) \<times> (string + report)" where
  "bulkImportSlots gw pg beyond isOffline currentTime routineId slotsData hb =
     (let h = fst hb; be = snd hb in
      if isOffline then ((h, be), Inr \<lparr>success = 0, errors = [OfflineUnavailable]\<rparr>)
      else
        (case issue gw (BulkImportRoutineSlots routineId) h of
           (Some msg, h1) \<Rightarrow>
             ((h1, be), Inr \<lparr>success = 0,
                errors = [ImportFailed (if msg = [] then ''Failed to import slots'' else msg)]\<rparr>)
         | (None, h1) \<Rightarrow>
             (case bulkImportRoutineSlots pg beyond routineId slotsData be of
                (be1, result) \<Rightarrow>
                  ((loadRoutines gw False currentTime True False h1, be1), Inr result))))"

text \<open>
  A database for the examples: \<^verbatim>\<open>ILIKE\<close> without wildcards on strings of one case is
  equality, times of the form \<^verbatim>\<open>HH:MM\<close> or \<^verbatim>\<open>HH:MM:SS\<close> are compared by their seconds, and
  no query fails.
\<close>

definition timeSeconds :: "string \<Rightarrow> nat" where
  "timeSeconds t =
     (case map decimal (js_split CHR '':'' t) of
        [h, m] \<Rightarrow> 3600 * h + 60 * m
      | [h, m, s] \<Rightarrow> 3600 * h + 60 * m + s
      | _ \<Rightarrow> 0)"

definition examplePostgres :: postgres where
  "examplePostgres = \<lparr>ilike = (\<lambda>v pat. v = pat), time_le = (\<lambda>a b. timeSeconds a \<le> timeSeconds b),
     conflict_error = (\<lambda>i. False), insert_error = None, fallback_error = None\<rparr>"

definition exampleBackend :: backend where
  "exampleBackend = \<lparr>b_routines = [''R1''], b_courses = [], b_teachers = [], b_slots = []\<rparr>"

definition importRow :: "string \<Rightarrow> string \<Rightarrow> string \<Rightarrow> import_row" where
  "importRow day startTime endTime = \<lparr>i_day = day, i_start_time = startTime, i_end_time = endTime,
     i_course = None, i_course_title = None, i_course_code = None, i_teacher = Some ''T'',
     i_room_number = None, i_section = None, i_teacherId = None, i_courseId = None\<rparr>"

section \<open>Concrete states and gateways\<close>

text \<open>A hook that has loaded nothing, a routine and a slot with empty fields, a gateway
  whose calls all return and one whose calls all throw.\<close>

definition emptyHook :: hook where
  "emptyHook = \<lparr>routines = [], loading = False, error = None, syncInProgress = False,
     diagnosed = False, store = [], lastFetched = None, calls = []\<rparr>"

definition blankSlot :: slot where
  "blankSlot = \<lparr>s_id = [], s_routineId = [], s_dayOfWeek = [], s_startTime = [], s_endTime = [],
     s_roomNumber = [], s_section = [], s_courseId = [], s_teacherId = [], s_courseName = [],
     s_courseCode = [], s_teacherName = [], s_createdAt = [], s_isOffline = False,
     s_isOfflineUpdated = False, s_isOfflineDeleted = False\<rparr>"

definition blankRoutine :: routine where
  "blankRoutine = \<lparr>r_id = [], r_name = [], r_description = [], r_semester = [], r_isActive = False,
     r_createdAt = [], r_createdBy = [], r_slots = [], r_isOffline = False, r_isOfflineUpdated = False,
     r_isOfflineDeleted = False, r_needsActivationSync = False, r_needsDeactivationSync = False\<rparr>"

definition okGateway :: gateway where
  "okGateway = \<lparr>svc_error = (\<lambda>tr c. None),
     svc_routine = (\<lambda>tr f. blankRoutine\<lparr>r_id := ''srv-1'', r_name := f_name f,
        r_description := f_description f, r_semester := f_semester f, r_isActive := f_isActive f\<rparr>),
     svc_slot = (\<lambda>tr rid s. s\<lparr>s_id := ''srv-slot-1'', s_routineId := rid\<rparr>),
     svc_fetch = (\<lambda>tr. []),
     svc_slots = (\<lambda>tr rid. []),
     svc_courses = (\<lambda>tr. []),
     svc_teachers = (\<lambda>tr. [])\<rparr>"

definition downGateway :: gateway where
  "downGateway = okGateway\<lparr>svc_error := (\<lambda>tr c. Some ''Failed to fetch'')\<rparr>"

text \<open>Routines for the examples: one marked for deletion, one whose only slot was created
  offline, an active one that awaits the sync of its activation, an inactive one.\<close>

definition routineA_deleted :: routine where
  "routineA_deleted = blankRoutine\<lparr>r_id := ''A'', r_isOfflineDeleted := True\<rparr>"

definition offlineSlot :: slot where
  "offlineSlot = blankSlot\<lparr>s_id := ''temp-slot-1'', s_routineId := ''B'', s_isOffline := True\<rparr>"

definition routineB_slot :: routine where
  "routineB_slot = blankRoutine\<lparr>r_id := ''B'', r_slots := [offlineSlot]\<rparr>"

definition routineA_active :: routine where
  "routineA_active = blankRoutine\<lparr>r_id := ''A'', r_isActive := True, r_needsActivationSync := True\<rparr>"

definition routineB_idle :: routine where
  "routineB_idle = blankRoutine\<lparr>r_id := ''B''\<rparr>"

text \<open>A \<^verbatim>\<open>routines\<close> table with \<open>A\<close> active, and a gateway in front of it on which the
  second update of the activation of \<open>B\<close> times out: the call throws, and a later fetch
  returns the table as the first update left it.\<close>

definition exampleTable :: "routine list" where
  "exampleTable = [blankRoutine\<lparr>r_id := ''A'', r_isActive := True\<rparr>, blankRoutine\<lparr>r_id := ''B''\<rparr>]"

definition timeoutGateway :: gateway where
  "timeoutGateway = okGateway\<lparr>
     svc_error := (\<lambda>tr c. if c = ActivateRoutine ''B''
                           then (case snd (activateRoutineService None (Some ''timeout'') ''B'' exampleTable) of
                                   Inl msg \<Rightarrow> Some msg | Inr u \<Rightarrow> None)
                           else None),
     svc_fetch := (\<lambda>tr. fst (activateRoutineService None (Some ''timeout'') ''B'' exampleTable))\<rparr>"

section \<open>The calls of a reconciliation pass\<close>

lemma atRoutine_calls [simp]: "p_calls (atRoutine i f p) = p_calls p"
  by (simp add: atRoutine_def split: option.split)

lemma syncSlot_calls: "sp_calls (syncSlot gw r sp s) = sp_calls sp @ slotCalls r s"
  by (simp add: syncSlot_def slotCalls_def Let_def split: option.split)

lemma foldl_syncSlot_calls:
  "sp_calls (foldl (syncSlot gw r) sp ss) = sp_calls sp @ concat (map (slotCalls r) ss)"
  by (induction ss arbitrary: sp) (simp_all add: syncSlot_calls)

lemma syncActivation_calls:
  "p_calls (syncActivation gw r p) = p_calls p @
     (if r_needsActivationSync r then [ActivateRoutine (r_id r)]
      else if r_needsDeactivationSync r then [DeactivateRoutine (r_id r)] else [])"
  by (simp add: syncActivation_def Let_def split: option.split)

lemma syncUpdate_calls:
  "p_calls (syncUpdate gw r p) = p_calls p @
     (if r_isOfflineUpdated r then [UpdateRoutine (r_id r) (fields_of r)] else [])"
  by (simp add: syncUpdate_def Let_def split: option.split)

lemma syncSlots_calls:
  "p_calls (syncSlots gw r p) = p_calls p @ concat (map (slotCalls r) (r_slots r))"
  by (simp add: syncSlots_def Let_def foldl_syncSlot_calls)

lemma slotCalls_unmarked:
  "\<not> list_ex (\<lambda>s. s_isOffline s \<or> s_isOfflineUpdated s \<or> s_isOfflineDeleted s) ss
   \<Longrightarrow> concat (map (slotCalls r) ss) = []"
  by (induction ss) (simp_all add: slotCalls_def)

lemma syncRoutine_calls: "p_calls (syncRoutine gw p r) = p_calls p @ routineCalls r"
  by (simp add: syncRoutine_def routineCalls_def Let_def syncActivation_calls syncUpdate_calls
      syncSlots_calls slotCalls_unmarked split: option.split)

lemma foldl_syncRoutine_calls:
  "p_calls (foldl (syncRoutine gw) p rs) = p_calls p @ concat (map routineCalls rs)"
  by (induction rs arbitrary: p) (simp_all add: syncRoutine_calls)

lemma syncOfflineChanges_calls:
  "calls (syncOfflineChanges gw False False now h) = calls h @ concat (map routineCalls (store h))"
  by (simp add: syncOfflineChanges_def syncPass_def syncBegin_def Let_def foldl_syncRoutine_calls)

section \<open>The Local Store keeps one item per id\<close>

lemma saveToIndexedDB_ids:
  "map r_id (saveToIndexedDB r st) = (if r_id r \<in> set (map r_id st) then map r_id st else map r_id st @ [r_id r])"
  by (induction st) (auto simp: saveToIndexedDB_def)

lemma saveToIndexedDB_distinct:
  "distinct (map r_id st) \<Longrightarrow> distinct (map r_id (saveToIndexedDB r st))"
  by (simp add: saveToIndexedDB_ids)

lemma saveToIndexedDB_middle:
  assumes "distinct (map r_id (a @ y # c))" "r_id x = r_id y"
  shows "saveToIndexedDB x (a @ y # c) = a @ x # c"
proof -
  have a: "\<forall>z\<in>set a. r_id z \<noteq> r_id y" and c: "\<forall>z\<in>set c. r_id z \<noteq> r_id y"
    using assms(1) by (auto simp: image_iff)
  have "map (\<lambda>z. if r_id z = r_id y then x else z) a = a"
    by (rule map_idI) (simp add: a)
  moreover have "map (\<lambda>z. if r_id z = r_id y then x else z) c = c"
    by (rule map_idI) (simp add: c)
  ultimately
  show ?thesis using assms(2) by (simp add: saveToIndexedDB_def)
qed

lemma saveAll_aux:
  "distinct (map r_id (a @ c)) \<Longrightarrow> map r_id b = map r_id c
   \<Longrightarrow> foldl (\<lambda>acc r. saveToIndexedDB r acc) (a @ c) b = a @ b"
proof (induction b arbitrary: a c)
  case Nil
  then show ?case by simp
next
  case (Cons x b)
  then obtain y c' where c: "c = y # c'" "r_id x = r_id y" "map r_id b = map r_id c'"
    by (cases c) auto
  have "saveToIndexedDB x (a @ y # c') = a @ x # c'"
    using Cons.prems(1) c by (intro saveToIndexedDB_middle) auto
  moreover have "distinct (map r_id ((a @ [x]) @ c'))" using Cons.prems(1) c by auto
  ultimately show ?case using Cons.IH[of "a @ [x]" c'] c by simp
qed

lemma saveAll_same_ids:
  "distinct (map r_id st) \<Longrightarrow> map r_id rs = map r_id st \<Longrightarrow> saveAllToIndexedDB rs st = rs"
  using saveAll_aux[of "[]" st rs] by (simp add: saveAllToIndexedDB_def)

section \<open>Reconciliation order\<close>

lemma routineCalls_deleted: "r_isOfflineDeleted a \<Longrightarrow> routineCalls a = [DeleteRoutine (r_id a)]"
  by (simp add: routineCalls_def)

lemma routineCalls_new_slot:
  "\<not> r_isOffline b \<Longrightarrow> \<not> r_isOfflineUpdated b \<Longrightarrow> \<not> r_isOfflineDeleted b \<Longrightarrow>
   \<not> r_needsActivationSync b \<Longrightarrow> \<not> r_needsDeactivationSync b \<Longrightarrow>
   r_slots b = [s] \<Longrightarrow> s_isOffline s \<Longrightarrow> \<not> s_isOfflineDeleted s \<Longrightarrow>
   routineCalls b = [AddRoutineSlot (r_id b) (newSlotData s)]"
  by (simp add: routineCalls_def slotCalls_def)

text \<open>
  C2, as amended. A pass walks the routines in the order the Local Store returns them and
  issues the calls of each routine in turn. With a routine \<open>a\<close> marked
  \<^verbatim>\<open>_isOfflineDeleted\<close> and another routine \<open>b\<close> without a marker of its own whose one
  slot \<open>s\<close> was created offline, the delete call for \<open>a\<close> comes before the create
  call for \<open>s\<close> when \<open>a\<close> is stored first, and after it when \<open>b\<close> is stored
  first, whatever the gateway answers.
\<close>

theorem reconcile_follows_store_order:
  assumes "r_isOfflineDeleted a"
    and "\<not> r_isOffline b" "\<not> r_isOfflineUpdated b" "\<not> r_isOfflineDeleted b"
    and "\<not> r_needsActivationSync b" "\<not> r_needsDeactivationSync b"
    and "r_slots b = [s]" "s_isOffline s" "\<not> s_isOfflineDeleted s"
  shows "(store h = [a, b] \<longrightarrow>
            calls (syncOfflineChanges gw False False now h)
              = calls h @ [DeleteRoutine (r_id a), AddRoutineSlot (r_id b) (newSlotData s)])
       \<and> (store h = [b, a] \<longrightarrow>
            calls (syncOfflineChanges gw False False now h)
              = calls h @ [AddRoutineSlot (r_id b) (newSlotData s), DeleteRoutine (r_id a)])"
  using routineCalls_deleted[OF assms(1)] routineCalls_new_slot[OF assms(2-9)]
  by (simp add: syncOfflineChanges_calls)

text \<open>The hypotheses hold for the two example routines, in both orders.\<close>

theorem reconcile_follows_store_order_witness:
  "calls (syncOfflineChanges okGateway False False 0 (emptyHook\<lparr>store := [routineA_deleted, routineB_slot]\<rparr>))
     = [DeleteRoutine ''A'', AddRoutineSlot ''B'' (newSlotData offlineSlot)]
   \<and> calls (syncOfflineChanges okGateway False False 0 (emptyHook\<lparr>store := [routineB_slot, routineA_deleted]\<rparr>))
     = [AddRoutineSlot ''B'' (newSlotData offlineSlot), DeleteRoutine ''A'']"
  using reconcile_follows_store_order[of routineA_deleted routineB_slot offlineSlot
          "emptyHook\<lparr>store := [routineA_deleted, routineB_slot]\<rparr>" okGateway 0]
        reconcile_follows_store_order[of routineA_deleted routineB_slot offlineSlot
          "emptyHook\<lparr>store := [routineB_slot, routineA_deleted]\<rparr>" okGateway 0]
  by (simp add: routineA_deleted_def routineB_slot_def offlineSlot_def blankRoutine_def blankSlot_def emptyHook_def)

text \<open>
  C2 as stated fails: with the routine that owns the new slot stored before the routine
  marked for deletion, the create call of the slot is issued first.
\<close>

theorem reconcile_creation_before_deletion:
  "calls (syncOfflineChanges okGateway False False 0 (emptyHook\<lparr>store := [routineB_slot, routineA_deleted]\<rparr>))
     = [AddRoutineSlot ''B'' (newSlotData offlineSlot), DeleteRoutine ''A'']"
  by (simp add: syncOfflineChanges_def syncPass_def syncBegin_def syncRoutine_def syncSlots_def
        syncSlot_def syncUpdate_def syncActivation_def atRoutine_def findIndex_def okGateway_def
        routineA_deleted_def routineB_slot_def offlineSlot_def blankRoutine_def blankSlot_def emptyHook_def
        Let_def)

section \<open>Temporary ids\<close>

text \<open>
  C3. A routine is created offline and gets a temporary id; it is then deleted offline,
  or activated offline. The next pass hands the temporary id to \<^verbatim>\<open>deleteRoutine\<close> of
  the service in the first case, and to \<^verbatim>\<open>activateRoutine\<close> of the service, before the
  routine is created on the backend, in the second.
\<close>

theorem temporary_id_sent_to_gateway:
  "calls (syncOfflineChanges gw False False now
       (fst (deleteRoutine gw True t (tempId ''1700000000000'' ''k3j9x2a'')
         (fst (createRoutine gw True ''1700000000000'' ''k3j9x2a'' ''2024-01-01'' blankRoutine emptyHook)))))
     = [DeleteRoutine (tempId ''1700000000000'' ''k3j9x2a'')]
   \<and> calls (syncOfflineChanges gw False False now
       (fst (activateRoutine gw True (tempId ''1700000000000'' ''k3j9x2a'')
         (fst (createRoutine gw True ''1700000000000'' ''k3j9x2a'' ''2024-01-01'' blankRoutine emptyHook)))))
     = [ActivateRoutine (tempId ''1700000000000'' ''k3j9x2a''), CreateRoutine (fields_of (blankRoutine\<lparr>r_isActive := True\<rparr>))]"
  by (simp add: syncOfflineChanges_calls routineCalls_def deleteRoutine_def createRoutine_def
        activateRoutine_def saveAllToIndexedDB_def
        emptyHook_def saveToIndexedDB_def Let_def blankRoutine_def fields_of_def)

text \<open>
  C4. Deleting offline a routine that was created offline leaves it in the Local Store
  with both \<^verbatim>\<open>_isOffline\<close> and \<^verbatim>\<open>_isOfflineDeleted\<close> set.
\<close>

theorem deleteRoutine_keeps_unsynced_creation:
  "map (\<lambda>r. (r_id r, r_isOffline r, r_isOfflineDeleted r))
     (store (fst (deleteRoutine gw True t (tempId ''1700000000000'' ''k3j9x2a'')
        (fst (createRoutine gw True ''1700000000000'' ''k3j9x2a'' ''2024-01-01'' blankRoutine emptyHook)))))
     = [(tempId ''1700000000000'' ''k3j9x2a'', True, True)]"
  by (simp add: deleteRoutine_def createRoutine_def emptyHook_def saveToIndexedDB_def Let_def blankRoutine_def)

text \<open>The slot-level delete does remove a slot that was created offline.\<close>

lemma deleteRoutineSlot_removes_unsynced_slot:
  "map r_slots (store (fst (deleteRoutineSlot gw True ''B'' ''temp-slot-1'' (emptyHook\<lparr>store := [routineB_slot]\<rparr>))))
     = [[]]"
  by (simp add: deleteRoutineSlot_def saveAllToIndexedDB_def saveToIndexedDB_def emptyHook_def
        routineB_slot_def offlineSlot_def blankRoutine_def blankSlot_def Let_def)

text \<open>After a pass has created the routine on the backend, the saved result holds the
  routine of the server, and the store, which a save only adds to, still holds the
  temporary one with its marker: the next pass creates it again.\<close>

lemma reconcile_keeps_temporary_routine:
  "map (\<lambda>r. (r_id r, r_isOffline r)) (store (syncOfflineChanges okGateway False False 5
       (fst (createRoutine okGateway True ''1700000000000'' ''k3j9x2a'' ''2024-01-01'' blankRoutine emptyHook))))
     = [(''temp-1700000000000-k3j9x2a'', True), (''srv-1'', False)]"
  by (simp add: syncOfflineChanges_def syncPass_def syncBegin_def syncRoutine_def syncActivation_def
        createRoutine_def saveAllToIndexedDB_def saveToIndexedDB_def okGateway_def fromRow_def tempId_def
        emptyHook_def blankRoutine_def fields_of_def Let_def)

section \<open>The single-flight guard\<close>

text \<open>An invocation whose render saw the hook offline, or a pass in progress, changes
  nothing; a pass that ends has reset the flag.\<close>

lemma syncOfflineChanges_guard:
  "isOffline \<or> inProgress \<Longrightarrow> syncOfflineChanges gw isOffline inProgress now h = h"
  by (simp add: syncOfflineChanges_def)

lemma syncPass_resets_flag: "syncInProgress (syncPass gw now h) = False"
  by (simp add: syncPass_def Let_def)

text \<open>
  C8. A render of the hook saw \<^verbatim>\<open>syncInProgress = false\<close>; the function it created is
  invoked, and the pass has set the flag and waits at its first \<^verbatim>\<open>await\<close>. A second
  invocation of the same function still reads \<open>false\<close>, passes the guard and issues the
  delete call of the stored routine while the first pass is in progress.
\<close>

theorem second_pass_runs_during_first:
  "rendered (emptyHook\<lparr>store := [routineA_deleted]\<rparr>) = False
   \<and> syncInProgress (syncBegin (emptyHook\<lparr>store := [routineA_deleted]\<rparr>)) = True
   \<and> calls (syncOfflineChanges gw False (rendered (emptyHook\<lparr>store := [routineA_deleted]\<rparr>)) now
        (syncBegin (emptyHook\<lparr>store := [routineA_deleted]\<rparr>))) = [DeleteRoutine ''A'']"
  by (simp add: rendered_def syncBegin_def syncOfflineChanges_calls[unfolded syncBegin_def] routineCalls_def
        emptyHook_def routineA_deleted_def blankRoutine_def)

section \<open>Activation\<close>

text \<open>
  C9 as stated fails: activating \<open>B\<close> offline clears the \<^verbatim>\<open>_needsActivationSync\<close>
  marker an earlier offline activation left on \<open>A\<close>.
\<close>

theorem activate_offline_clears_other_marker:
  "map r_needsActivationSync [routineA_active, routineB_idle] = [True, False]
   \<and> map r_needsActivationSync
        (store (fst (activateRoutine okGateway True ''B'' (emptyHook\<lparr>store := [routineA_active, routineB_idle]\<rparr>))))
      = [False, True]"
  by (simp add: activateRoutine_def saveAllToIndexedDB_def saveToIndexedDB_def emptyHook_def
        routineA_active_def routineB_idle_def blankRoutine_def Let_def)

text \<open>
  C9, as amended. On a store with one item per id, the offline path of \<^verbatim>\<open>activateRoutine\<close>
  writes two fields of every stored routine and nothing else: \<^verbatim>\<open>isActive\<close> and
  \<^verbatim>\<open>_needsActivationSync\<close> both become true on the target and false on every other
  routine. It issues no service call and does not throw.
\<close>

theorem activate_offline_frame:
  assumes "distinct (map r_id (store h))"
  shows "store (fst (activateRoutine gw True t h))
           = map (\<lambda>r. r\<lparr>r_isActive := (r_id r = t), r_needsActivationSync := (r_id r = t)\<rparr>) (store h)
       \<and> calls (fst (activateRoutine gw True t h)) = calls h
       \<and> snd (activateRoutine gw True t h) = Inr ()"
  using assms by (simp add: activateRoutine_def Let_def saveAll_same_ids o_def)

text \<open>The two example routines have different ids; the store after activating \<open>B\<close>.\<close>

theorem activate_offline_frame_witness:
  "distinct (map r_id [routineA_active, routineB_idle])
   \<and> store (fst (activateRoutine okGateway True ''B'' (emptyHook\<lparr>store := [routineA_active, routineB_idle]\<rparr>)))
       = [routineA_active\<lparr>r_isActive := False, r_needsActivationSync := False\<rparr>,
          routineB_idle\<lparr>r_isActive := True, r_needsActivationSync := True\<rparr>]"
  using activate_offline_frame[of "emptyHook\<lparr>store := [routineA_active, routineB_idle]\<rparr>" okGateway "''B''"]
  by (simp add: emptyHook_def routineA_active_def routineB_idle_def blankRoutine_def)

lemma only_target:
  "distinct (map f xs) \<Longrightarrow> t \<in> f ` set xs \<Longrightarrow> map f (filter (\<lambda>x. f x = t) xs) = [t]"
proof (induction xs)
  case Nil then show ?case by simp
next
  case (Cons x xs)
  show ?case
  proof (cases "f x = t")
    case True
    have "\<forall>z\<in>set xs. f z \<noteq> f x" using Cons.prems(1) by (auto simp: image_iff)
    with True have "filter (\<lambda>x. f x = t) xs = []"
      by (simp add: filter_empty_conv)
    with True show ?thesis by simp
  next
    case False
    then show ?thesis using Cons by auto
  qed
qed

lemma activateRoutine_store:
  assumes "distinct (map r_id (store h))"
  shows "store (fst (activateRoutine gw off t h)) =
           (if snd (activateRoutine gw off t h) = Inr ()
            then map (\<lambda>r. r\<lparr>r_isActive := (r_id r = t),
                     r_needsActivationSync := (if off then r_id r = t else r_needsActivationSync r)\<rparr>) (store h)
            else store h)"
  using assms
  by (simp add: activateRoutine_def Let_def saveAll_same_ids o_def issue_def split: option.split)

lemma activateRoutine_ids:
  assumes "distinct (map r_id (store h))"
  shows "map r_id (store (fst (activateRoutine gw off t h))) = map r_id (store h)"
  by (simp add: activateRoutine_store[OF assms] o_def)

lemma activations_ids:
  "distinct (map r_id (store h)) \<Longrightarrow> map r_id (store (activations gw cs h)) = map r_id (store h)"
proof (induction cs arbitrary: h)
  case Nil then show ?case by (simp add: activations_def)
next
  case (Cons c cs)
  have "map r_id (store (fst (activateRoutine gw (fst c) (snd c) h))) = map r_id (store h)"
    using Cons.prems by (rule activateRoutine_ids)
  moreover from this have "distinct (map r_id (store (fst (activateRoutine gw (fst c) (snd c) h))))"
    using Cons.prems by simp
  ultimately show ?case using Cons.IH[of "fst (activateRoutine gw (fst c) (snd c) h)"]
    by (simp add: activations_def)
qed

lemma activateRoutine_offline_returns: "snd (activateRoutine gw True t h) = Inr ()"
  by (simp add: activateRoutine_def Let_def)

text \<open>
  C6, as amended. Take a Local Store with one item per id that holds the id \<open>t\<close>, any
  sequence \<open>cs\<close> of earlier \<^verbatim>\<open>activateRoutine\<close> calls, offline or online, and any
  gateway. When the next call \<^verbatim>\<open>activateRoutine(t)\<close> returns, on either path, the active
  routines of the Local Store are exactly the one with id \<open>t\<close>. A call that throws is an
  online call, and it leaves the Local Store as it was.
\<close>

theorem activate_single_active:
  assumes "distinct (map r_id (store h))" and "t \<in> r_id ` set (store h)"
  shows "(snd (activateRoutine gw off t (activations gw cs h)) = Inr () \<longrightarrow>
            map r_id (filter r_isActive (store (fst (activateRoutine gw off t (activations gw cs h))))) = [t])
       \<and> (snd (activateRoutine gw off t (activations gw cs h)) \<noteq> Inr () \<longrightarrow>
            \<not> off \<and> store (fst (activateRoutine gw off t (activations gw cs h))) = store (activations gw cs h))"
proof -
  let ?hk = "activations gw cs h"
  have ids: "map r_id (store ?hk) = map r_id (store h)" using assms(1) by (rule activations_ids)
  then have d: "distinct (map r_id (store ?hk))" using assms(1) by simp
  have "set (map r_id (store ?hk)) = set (map r_id (store h))" using ids by simp
  then have t: "t \<in> r_id ` set (store ?hk)" using assms(2) by simp
  have "map r_id (filter (\<lambda>r. r_id r = t) (store ?hk)) = [t]"
    using d t by (rule only_target)
  then show ?thesis
    using activateRoutine_store[OF d, of gw off t] activateRoutine_offline_returns[of gw t ?hk]
    by (cases off) (simp_all add: filter_map o_def)
qed

text \<open>Four calls on the two example routines, and a call that throws.\<close>

theorem activate_single_active_witness:
  "map r_id (filter r_isActive (store (fst (activateRoutine okGateway False ''B''
      (activations okGateway [(True, ''A''), (False, ''B''), (True, ''A'')]
         (emptyHook\<lparr>store := [routineA_active, routineB_idle]\<rparr>)))))) = [''B'']
   \<and> store (fst (activateRoutine downGateway False ''B'' (emptyHook\<lparr>store := [routineA_active, routineB_idle]\<rparr>)))
       = [routineA_active, routineB_idle]"
  using activate_single_active[of "emptyHook\<lparr>store := [routineA_active, routineB_idle]\<rparr>" "''B''" okGateway False
          "[(True, ''A''), (False, ''B''), (True, ''A'')]"]
        activate_single_active[of "emptyHook\<lparr>store := [routineA_active, routineB_idle]\<rparr>" "''B''" downGateway False "[]"]
  by (simp add: emptyHook_def routineA_active_def routineB_idle_def blankRoutine_def activations_def
       activateRoutine_def issue_def okGateway_def downGateway_def Let_def)

text \<open>
  C6 as stated fails at the service: its two updates are separate requests. With \<open>A\<close>
  active, activating \<open>B\<close> when the second update answers with an error throws and leaves
  no routine of the table active; the call of the hook throws, and the next forced load
  brings a Local Store without an active routine.
\<close>

theorem failed_activation_leaves_none_active:
  "activateRoutineService None (Some ''timeout'') ''B'' exampleTable
     = ([blankRoutine\<lparr>r_id := ''A''\<rparr>, blankRoutine\<lparr>r_id := ''B''\<rparr>], Inl ''timeout'')
   \<and> filter r_isActive (fst (activateRoutineService None (Some ''timeout'') ''B'' exampleTable)) = []
   \<and> snd (activateRoutine timeoutGateway False ''B'' (emptyHook\<lparr>store := exampleTable\<rparr>)) = Inl ''timeout''
   \<and> filter r_isActive (store (loadRoutines timeoutGateway False 0 True False
        (fst (activateRoutine timeoutGateway False ''B'' (emptyHook\<lparr>store := exampleTable\<rparr>))))) = []"
  by (simp add: activateRoutineService_def exampleTable_def blankRoutine_def timeoutGateway_def okGateway_def
        activateRoutine_def issue_def emptyHook_def loadRoutines_def loadFetched_def fetchAttempt_def
        directSlots_def numeral_3_eq_3 cacheValid_def clearIndexedDBStore_def saveAllToIndexedDB_def
        saveToIndexedDB_def Let_def)

section \<open>Loading\<close>

lemma fetchAttempt_fails:
  assumes "svc_error gw (calls h) FetchRoutines = Some m"
  shows "fetchAttempt gw h = (h\<lparr>calls := calls h @ [FetchRoutines]\<rparr>, Inl m)"
  using assms by (simp add: fetchAttempt_def issue_def)




lemma directSlots_calls:
  "\<exists>rest. calls (fst (foldl (directSlots gw) (h, done) rs)) = calls h @ rest"
proof (induction rs arbitrary: h "done")
  case Nil then show ?case by simp
next
  case (Cons r rs)
  obtain h1 d1 where s: "directSlots gw (h, done) r = (h1, d1)" by (cases "directSlots gw (h, done) r")
  then have "calls h1 = calls h @ [SelectSlots (r_id r)]"
    by (auto simp: directSlots_def issue_def Let_def split: option.splits if_splits)
  moreover obtain rest where "calls (fst (foldl (directSlots gw) (h1, d1) rs)) = calls h1 @ rest"
    using Cons.IH by blast
  ultimately show ?case using s by simp
qed

lemma fetchAttempt_calls:
  "\<exists>rest. calls (fst (fetchAttempt gw h)) = calls h @ FetchRoutines # rest"
proof (cases "svc_error gw (calls h) FetchRoutines")
  case (Some m)
  then show ?thesis by (simp add: fetchAttempt_fails)
next
  case None
  obtain rest where "calls (fst (foldl (directSlots gw) (h\<lparr>calls := calls h @ [FetchRoutines]\<rparr>, []) (svc_fetch gw (calls h))))
     = calls (h\<lparr>calls := calls h @ [FetchRoutines]\<rparr>) @ rest"
    using directSlots_calls by blast
  with None show ?thesis
    by (simp add: fetchAttempt_def issue_def Let_def case_prod_beta)
qed

lemma fetchWithRetry_calls:
  "\<exists>rest. calls (fst (fetchWithRetry gw n e h)) = calls h @ rest"
proof (induction n arbitrary: e h)
  case 0 then show ?case by simp
next
  case (Suc n)
  obtain h1 res where a: "fetchAttempt gw h = (h1, res)" by (cases "fetchAttempt gw h")
  obtain r1 where r1: "calls h1 = calls h @ FetchRoutines # r1"
    using fetchAttempt_calls[of gw h] a by auto
  show ?case
  proof (cases res)
    case (Inr d)
    with a r1 show ?thesis by simp
  next
    case (Inl m)
    obtain r2 where "calls (fst (fetchWithRetry gw n (Some m) h1)) = calls h1 @ r2"
      using Suc by blast
    with a r1 Inl show ?thesis by simp
  qed
qed

lemma fetchWithRetry_first_call:
  "\<exists>rest. calls (fst (fetchWithRetry gw (Suc n) e h)) = calls h @ FetchRoutines # rest"
proof -
  obtain h1 res where a: "fetchAttempt gw h = (h1, res)" by (cases "fetchAttempt gw h")
  obtain r1 where r1: "calls h1 = calls h @ FetchRoutines # r1"
    using fetchAttempt_calls[of gw h] a by auto
  show ?thesis
  proof (cases res)
    case (Inr d)
    with a r1 show ?thesis by simp
  next
    case (Inl m)
    obtain r2 where "calls (fst (fetchWithRetry gw n (Some m) h1)) = calls h1 @ r2"
      using fetchWithRetry_calls by blast
    with a r1 Inl show ?thesis by simp
  qed
qed

lemma refreshRoutineSlots_calls:
  "\<exists>rest. calls (refreshRoutineSlots gw i h) = calls h @ rest"
  by (simp add: refreshRoutineSlots_def issue_def Let_def split: option.split)

lemma loadFetched_calls: "\<exists>rest. calls (loadFetched gw currentTime d h1) = calls h1 @ rest"
proof (cases "find r_isActive d")
  case None
  then show ?thesis by (simp add: loadFetched_def Let_def)
next
  case (Some ar)
  then show ?thesis
    using refreshRoutineSlots_calls[of gw "r_id ar"
       "h1\<lparr>routines := d, lastFetched := Some currentTime,
           store := saveAllToIndexedDB d (clearIndexedDBStore (store h1))\<rparr>"]
    by (simp add: loadFetched_def Let_def)
qed

lemma loadFailed_calls: "calls (loadFailed e h1) = calls h1"
  by (simp add: loadFailed_def Let_def)

lemma loadRoutines_fetches:
  assumes "\<not> (cacheValid (5 * 60 * 1000) currentTime (forceRefresh \<or> isAdminView) isAdminView
             (if forceRefresh \<or> isAdminView then None else lastFetched h)
            \<and> list_ex (\<lambda>r. length (r_slots r) > 0) (store h))"
  shows "\<exists>rest. calls (loadRoutines gw False currentTime forceRefresh isAdminView h)
            = calls h @ FetchRoutines # rest"
proof -
  let ?h = "(if forceRefresh \<or> isAdminView then h\<lparr>loading := True, error := None, lastFetched := None\<rparr>
             else h\<lparr>loading := True, error := None\<rparr>)"
  obtain h1 res where f: "fetchWithRetry gw 3 None ?h = (h1, res)" by (cases "fetchWithRetry gw 3 None ?h")
  obtain r1 where r1: "calls h1 = calls h @ FetchRoutines # r1"
    using fetchWithRetry_first_call[of gw 2 None ?h] f by (auto simp: numeral_3_eq_3 split: if_splits)
  have g: "\<not> (cacheValid (5 * 60 * 1000) currentTime (forceRefresh \<or> isAdminView) isAdminView (lastFetched ?h)
             \<and> length (store ?h) > 0 \<and> list_ex (\<lambda>r. length (r_slots r) > 0) (store ?h))"
    using assms by auto
  show ?thesis
  proof (cases res)
    case (Inl e)
    then show ?thesis using f g r1 unfolding loadRoutines_def Let_def
      by (auto simp: loadFailed_calls split: if_splits)
  next
    case (Inr d)
    obtain r2 where "calls (loadFetched gw currentTime d h1) = calls h1 @ r2"
      using loadFetched_calls by blast
    then show ?thesis using f g r1 Inr unfolding loadRoutines_def Let_def
      by (auto split: if_splits)
  qed
qed

lemma progressiveFetch_calls:
  "\<exists>rest. calls (fst (progressiveFetch gw f h)) = calls h @ SelectRoutines # rest"
  by (auto simp: progressiveFetch_def issue_def Let_def split: option.split)

lemma fixEach_calls: "\<exists>rest. calls (fst (fixEach gw rs acc)) = calls (fst acc) @ rest"
proof (induction rs arbitrary: acc)
  case Nil then show ?case by simp
next
  case (Cons r rs)
  show ?case
  proof (cases "svc_error gw (calls (fst acc)) (SelectSlots (r_id r))")
    case (Some m) then show ?thesis by (simp add: issue_def)
  next
    case None
    let ?acc = "((fst acc)\<lparr>calls := calls (fst acc) @ [SelectSlots (r_id r)]\<rparr>,
        if length (svc_slots gw (calls (fst acc)) (r_id r)) > 0
        then setSlots (r_id r) (map formatSlot (svc_slots gw (calls (fst acc)) (r_id r))) (snd acc) else snd acc)"
    obtain rest where "calls (fst (fixEach gw rs ?acc)) = calls (fst ?acc) @ rest" using Cons by blast
    with None show ?thesis by (simp add: issue_def Let_def)
  qed
qed

lemma fixMissingSlotData_calls: "\<exists>rest. calls (fst (fixMissingSlotData gw rs h)) = calls h @ rest"
proof -
  have "\<And>xs. \<exists>rest. calls (fst (case fixEach gw xs (h, rs) of
                 (h1, Some updatedRoutines) \<Rightarrow> (h1, updatedRoutines)
               | (h1, None) \<Rightarrow> (h1, rs))) = calls h @ rest"
    using fixEach_calls[of gw _ "(h, rs)"] by (auto split: prod.split option.split) (metis fst_conv)+
  then show ?thesis by (simp add: fixMissingSlotData_def Let_def)
qed


lemma progressiveFailed_calls: "\<exists>rest. calls (progressiveFailed gw msg h1) = calls h1 @ rest"
  using fixMissingSlotData_calls[of gw "store h1" h1]
  by (auto simp: progressiveFailed_def Let_def split: prod.split)

lemma progressive_fetches_first:
  assumes "\<not> list_ex (\<lambda>r. length (r_slots r) > 0) (store h)"
  shows "take (Suc (length (calls h))) (calls (loadRoutinesProgressive gw False currentTime False False h))
           = calls h @ [SelectRoutines]"
proof -
  let ?h = "h\<lparr>loading := True, error := None\<rparr>"
  let ?f = "cacheValid (3 * 60 * 1000) currentTime False False (lastFetched h) \<and> 0 < length (store h)"
  obtain h1 res where f: "progressiveFetch gw ?f ?h = (h1, res)" by (cases "progressiveFetch gw ?f ?h")
  obtain r1 where r1: "calls h1 = calls h @ SelectRoutines # r1"
    using progressiveFetch_calls[of gw ?f ?h] f by auto
  show ?thesis
  proof (cases res)
    case None
    with f r1 assms show ?thesis by (simp add: loadRoutinesProgressive_def Let_def)
  next
    case (Some msg)
    obtain r2 where "calls (progressiveFailed gw msg h1) = calls h1 @ r2"
      using progressiveFailed_calls by blast
    with Some f r1 assms show ?thesis by (simp add: loadRoutinesProgressive_def Let_def)
  qed
qed













text \<open>In the progressive version a first query that answers with an error instead of
  throwing publishes an empty list and sets no error, whatever the store holds.\<close>

lemma progressive_error_answer_empties_the_list:
  "error (loadRoutinesProgressive okGateway False 600000 False False
            (emptyHook\<lparr>store := [routineB_slot], routines := [routineB_slot], lastFetched := Some 0\<rparr>)) = None
   \<and> routines (loadRoutinesProgressive okGateway False 600000 False False
            (emptyHook\<lparr>store := [routineB_slot], routines := [routineB_slot], lastFetched := Some 0\<rparr>)) = []"
  by (simp add: loadRoutinesProgressive_def progressiveFetch_def
        cacheValid_def issue_def okGateway_def emptyHook_def Let_def)

text \<open>
  C7. When no routine of the Local Store has a slot, \<^verbatim>\<open>loadRoutines(false)\<close> called online
  for a regular view starts with a remote fetch, whatever the timestamp and the current
  time are: \<^verbatim>\<open>fetchRoutines\<close> in the version with the single fetch, the query of the
  routines in the progressive version.
\<close>

theorem empty_slot_cache_forces_fetch:
  assumes "\<not> list_ex (\<lambda>r. length (r_slots r) > 0) (store h)"
  shows "take (Suc (length (calls h))) (calls (loadRoutines gw False currentTime False False h))
           = calls h @ [FetchRoutines]
       \<and> take (Suc (length (calls h))) (calls (loadRoutinesProgressive gw False currentTime False False h))
           = calls h @ [SelectRoutines]"
proof -
  obtain rest where "calls (loadRoutines gw False currentTime False False h) = calls h @ FetchRoutines # rest"
    using loadRoutines_fetches[of currentTime False False h gw] assms by auto
  then show ?thesis using progressive_fetches_first[OF assms, of gw currentTime] by simp
qed

text \<open>A store with one routine without slots, fetched one second ago: the cache is
  valid by its timestamp in both versions, and the load fetches.\<close>

theorem empty_slot_cache_forces_fetch_witness:
  "\<not> list_ex (\<lambda>r. length (r_slots r) > 0) [routineB_idle]
   \<and> cacheValid (5 * 60 * 1000) 1000 False False (Some 0)
   \<and> cacheValid (3 * 60 * 1000) 1000 False False (Some 0)
   \<and> take 1 (calls (loadRoutines okGateway False 1000 False False
                (emptyHook\<lparr>store := [routineB_idle], lastFetched := Some 0\<rparr>))) = [FetchRoutines]
   \<and> take 1 (calls (loadRoutinesProgressive okGateway False 1000 False False
                (emptyHook\<lparr>store := [routineB_idle], lastFetched := Some 0\<rparr>))) = [SelectRoutines]"
  using empty_slot_cache_forces_fetch[of "emptyHook\<lparr>store := [routineB_idle], lastFetched := Some 0\<rparr>" okGateway 1000]
  by (simp add: emptyHook_def routineB_idle_def blankRoutine_def cacheValid_def)

text \<open>The other side of the gate: a valid timestamp and a stored routine with a slot, and
  the load issues no call.\<close>

lemma valid_cache_with_slots_is_served:
  "calls (loadRoutines gw False 1000 False False (emptyHook\<lparr>store := [routineB_idle, routineB_slot], lastFetched := Some 0\<rparr>)) = []
   \<and> routines (loadRoutines gw False 1000 False False (emptyHook\<lparr>store := [routineB_idle, routineB_slot], lastFetched := Some 0\<rparr>))
       = [routineB_idle, routineB_slot]"
  by (simp add: loadRoutines_def cacheValid_def emptyHook_def routineB_slot_def routineB_idle_def Let_def)

section \<open>Bulk import\<close>

text \<open>Under any total, transitive order on times the conflict filter accepts every
  stored slot of the routine and day whose start is not after its end, for any new slot
  whose start is not after its end.\<close>

lemma conflicts_any_wellformed:
  assumes "\<And>a b. time_le pg a b \<or> time_le pg b a"
    and "\<And>a b c. time_le pg a b \<Longrightarrow> time_le pg b c \<Longrightarrow> time_le pg a c"
    and "e \<in> set (b_slots be)" "c_routine_id e = routineId" "c_day_of_week e = day"
    and "time_le pg (c_start_time e) (c_end_time e)" "time_le pg startTime endTime"
  shows "e \<in> set (conflicts pg be routineId day startTime endTime)"
proof -
  have "time_le pg (c_start_time e) endTime \<or> time_le pg startTime (c_end_time e)"
    using assms(1)[of "c_start_time e" endTime] assms(1)[of startTime "c_end_time e"]
          assms(2) assms(6,7) by blast
  then show ?thesis using assms(3-5) by (simp add: conflicts_def)
qed

lemma js_split_nonempty: "js_split sep s \<noteq> []"
  by (induction s) (auto split: list.split)

lemma js_split_no_sep: "sep \<notin> set s \<Longrightarrow> js_split sep s = [s]"
  by (induction s) auto

lemma js_split_hd: "hd (js_split sep s) = takeWhile (\<lambda>c. c \<noteq> sep) s"
  by (induction s) (auto split: list.split simp: js_split_nonempty)

lemma convert_unchanged:
  assumes "CHR '' '' \<notin> set t \<or> CHR '':'' \<notin> set (takeWhile (\<lambda>c. c \<noteq> CHR '' '') t)"
  shows "convertTo24HourFormat beyond t = t"
proof (cases "CHR '' '' \<in> set t")
  case False
  then show ?thesis by (simp add: convertTo24HourFormat_def js_split_no_sep)
next
  case True
  with assms have c: "CHR '':'' \<notin> set (takeWhile (\<lambda>c. c \<noteq> CHR '' '') t)" by simp
  obtain p ps where p: "js_split CHR '' '' t = p # ps"
    using js_split_nonempty[of "CHR '' ''" t] by (cases "js_split CHR '' '' t") auto
  then have "p = takeWhile (\<lambda>c. c \<noteq> CHR '' '') t" using js_split_hd[of "CHR '' ''" t] by simp
  with c have "js_split CHR '':'' p = [p]" by (simp add: js_split_no_sep)
  with p show ?thesis by (simp add: convertTo24HourFormat_def split: list.split)
qed

lemma secs: "timeSeconds ''09:00'' = 32400" "timeSeconds ''10:00'' = 36000" "timeSeconds ''09:30'' = 34200"
  "timeSeconds ''10:30'' = 37800" "timeSeconds ''11:00'' = 39600"
  by (simp_all add: timeSeconds_def decimal_def digitValue_def)

lemma zip2: "zip [0 ..< length [a, b]] [a, b] = [(0, a), (Suc 0, b)]"
  by (simp add: upt_rec)

lemma zip1: "zip [0 ..< length [a]] [a] = [(0, a)]"
  by simp

text \<open>
  C1. Two overlapping slots (09:00 to 10:00 and 09:30 to 10:30) imported together into a
  routine without slots are both inserted, with no error: a row is checked against the
  table only, not against the rows of its batch. And after 09:00 to 10:00 is imported, the
  import of 10:00 to 11:00, which does not overlap it, is rejected as a conflict: the
  filter is \<open>start \<le> new end \<or> end \<ge> new start\<close>.
\<close>

theorem bulk_import_conflict_check:
  "snd (bulkImportRoutineSlots examplePostgres beyond ''R1''
          [importRow ''Monday'' ''09:00'' ''10:00'', importRow ''Monday'' ''09:30'' ''10:30''] exampleBackend)
     = \<lparr>success = 2, errors = []\<rparr>
   \<and> snd (bulkImportRoutineSlots examplePostgres beyond ''R1'' [importRow ''Monday'' ''10:00'' ''11:00'']
        (fst (bulkImportRoutineSlots examplePostgres beyond ''R1''
                [importRow ''Monday'' ''09:00'' ''10:00''] exampleBackend)))
     = \<lparr>success = 0, errors = [TimeConflict 1 ''Monday'' ''10:00'' ''11:00'']\<rparr>"
  by (simp add: bulkImportRoutineSlots_def zip2 zip1 del: upt.simps length_Cons list.size,
      simp add: processRow_def resolveCourse_def resolveTeacher_def importRow_def orNull_def trim_def isSpace_def
        convert_unchanged conflicts_def examplePostgres_def exampleBackend_def Let_def secs)


lemma processRow_count:
  "length (processedSlots (processRow pg beyond be rid ip ix)) + length (ip_errors (processRow pg beyond be rid ip ix))
     = Suc (length (processedSlots ip) + length (ip_errors ip))"
  by (simp add: processRow_def Let_def split: prod.split option.split)

lemma foldl_processRow_count:
  "length (processedSlots (foldl (processRow pg beyond be rid) ip xs))
     + length (ip_errors (foldl (processRow pg beyond be rid) ip xs))
     = length xs + (length (processedSlots ip) + length (ip_errors ip))"
  by (induction xs arbitrary: ip) (simp_all add: processRow_count)

lemma processRow_times:
  "x \<in> set (processedSlots (processRow pg beyond be rid ip ix))
   \<Longrightarrow> x \<in> set (processedSlots ip) \<or> fromRowOf beyond (snd ix) x"
  by (auto simp: processRow_def fromRowOf_def Let_def split: prod.splits option.splits if_splits)

lemma foldl_processRow_times:
  "x \<in> set (processedSlots (foldl (processRow pg beyond be rid) ip xs))
   \<Longrightarrow> x \<in> set (processedSlots ip) \<or> (\<exists>ix\<in>set xs. fromRowOf beyond (snd ix) x)"
proof (induction xs arbitrary: ip)
  case Nil then show ?case by simp
next
  case (Cons a xs)
  from Cons.IH[of "processRow pg beyond be rid ip a"] Cons.prems
  have "x \<in> set (processedSlots (processRow pg beyond be rid ip a)) \<or> (\<exists>ix\<in>set xs. fromRowOf beyond (snd ix) x)"
    by simp
  then show ?case using processRow_times[of x pg beyond be rid ip a] by auto
qed

lemma import_rows_start:
  "processedSlots (foldl (processRow pg beyond be rid)
      \<lparr>courseCache = [], teacherCache = [], processedSlots = [], ip_errors = []\<rparr> (zip [0 ..< length rows] rows)) = ps
   \<Longrightarrow> x \<in> set ps \<Longrightarrow> \<exists>r\<in>set rows. fromRowOf beyond r x"
  using foldl_processRow_times[of x pg beyond be rid
      "\<lparr>courseCache = [], teacherCache = [], processedSlots = [], ip_errors = []\<rparr>" "zip [0 ..< length rows] rows"]
  by (auto dest: set_zip_rightD)

lemma import_count:
  "length (processedSlots (foldl (processRow pg beyond be rid)
      \<lparr>courseCache = [], teacherCache = [], processedSlots = [], ip_errors = []\<rparr> (zip [0 ..< length rows] rows)))
   + length (ip_errors (foldl (processRow pg beyond be rid)
      \<lparr>courseCache = [], teacherCache = [], processedSlots = [], ip_errors = []\<rparr> (zip [0 ..< length rows] rows)))
   = length rows"
  by (simp add: foldl_processRow_count)

lemma fromRowOf_strip: "fromRowOf beyond r (x\<lparr>c_course_name := None, c_teacher_name := None\<rparr>) = fromRowOf beyond r x"
  by (simp add: fromRowOf_def)

lemma service_inserts:
  "take (length (b_slots be)) (b_slots (fst (bulkImportRoutineSlots pg beyond rid rows be))) = b_slots be
   \<and> (\<forall>x\<in>set (drop (length (b_slots be)) (b_slots (fst (bulkImportRoutineSlots pg beyond rid rows be)))).
         \<exists>r\<in>set rows. fromRowOf beyond r x)"
proof -
  let ?ip = "foldl (processRow pg beyond be rid)
      \<lparr>courseCache = [], teacherCache = [], processedSlots = [], ip_errors = []\<rparr> (zip [0 ..< length rows] rows)"
  have a: "\<forall>x\<in>set (processedSlots ?ip). \<exists>r\<in>set rows. fromRowOf beyond r x"
    using import_rows_start[OF refl] by blast
  then have b: "\<forall>x\<in>set (map (\<lambda>slot. slot\<lparr>c_course_name := None, c_teacher_name := None\<rparr>) (processedSlots ?ip)).
       \<exists>r\<in>set rows. fromRowOf beyond r x"
    by (auto simp: fromRowOf_strip)
  show ?thesis using a b
    by (simp add: bulkImportRoutineSlots_def Let_def split: option.split)
qed

lemma service_counts:
  assumes "rid \<in> set (b_routines be)"
  shows "(insert_error pg = None \<or> fallback_error pg = None \<longrightarrow>
            success (snd (bulkImportRoutineSlots pg beyond rid rows be))
              + length (errors (snd (bulkImportRoutineSlots pg beyond rid rows be))) = length rows)
       \<and> (insert_error pg \<noteq> None \<and> fallback_error pg = Some msg \<longrightarrow>
            success (snd (bulkImportRoutineSlots pg beyond rid rows be)) = 0
            \<and> (DatabaseError msg \<in> set (errors (snd (bulkImportRoutineSlots pg beyond rid rows be)))
               \<or> length (errors (snd (bulkImportRoutineSlots pg beyond rid rows be))) = length rows))"
  using assms import_count[of pg beyond be rid rows]
  by (auto simp: bulkImportRoutineSlots_def Let_def split: option.split)

text \<open>
  \<^verbatim>\<open>bulkImportSlots\<close> never throws: it returns a report for every input, every gateway
  and every database. Offline the report is the one error and nothing is touched. For an
  unknown routine the service reports \<open>InvalidRoutineId\<close>. For a known routine, when an
  insert succeeds every row is either counted in \<open>success\<close> or has one entry in
  \<open>errors\<close>; when both inserts fail \<open>success\<close> is 0 and the database error is reported,
  unless every row already failed. The table only grows, and every inserted row carries
  the day of an imported row and its two times as \<^verbatim>\<open>convertTo24HourFormat\<close> returns them:
  no time string is rejected. A time string without a space, or without a colon before
  its first space, is returned unchanged.
\<close>

lemma bulk_import_reports:
  "(\<exists>rep. snd (bulkImportSlots gw pg beyond isOffline now rid rows (h, be)) = Inr rep)
   \<and> (isOffline \<longrightarrow> bulkImportSlots gw pg beyond isOffline now rid rows (h, be)
         = ((h, be), Inr \<lparr>success = 0, errors = [OfflineUnavailable]\<rparr>))
   \<and> (rid \<notin> set (b_routines be) \<longrightarrow> bulkImportRoutineSlots pg beyond rid rows be
         = (be, \<lparr>success = 0, errors = [InvalidRoutineId]\<rparr>))
   \<and> (rid \<in> set (b_routines be) \<and> (insert_error pg = None \<or> fallback_error pg = None) \<longrightarrow>
         success (snd (bulkImportRoutineSlots pg beyond rid rows be))
           + length (errors (snd (bulkImportRoutineSlots pg beyond rid rows be))) = length rows)
   \<and> (rid \<in> set (b_routines be) \<and> insert_error pg \<noteq> None \<and> fallback_error pg = Some msg \<longrightarrow>
         success (snd (bulkImportRoutineSlots pg beyond rid rows be)) = 0
         \<and> (DatabaseError msg \<in> set (errors (snd (bulkImportRoutineSlots pg beyond rid rows be)))
            \<or> length (errors (snd (bulkImportRoutineSlots pg beyond rid rows be))) = length rows))
   \<and> take (length (b_slots be)) (b_slots (fst (bulkImportRoutineSlots pg beyond rid rows be))) = b_slots be
   \<and> (\<forall>x\<in>set (drop (length (b_slots be)) (b_slots (fst (bulkImportRoutineSlots pg beyond rid rows be)))).
         \<exists>r\<in>set rows. c_day_of_week x = i_day r
            \<and> c_start_time x = convertTo24HourFormat beyond (i_start_time r)
            \<and> c_end_time x = convertTo24HourFormat beyond (i_end_time r))
   \<and> (CHR '' '' \<notin> set t \<or> CHR '':'' \<notin> set (takeWhile (\<lambda>c. c \<noteq> CHR '' '') t)
         \<longrightarrow> convertTo24HourFormat beyond t = t)"
proof -
  have 1: "\<exists>rep. snd (bulkImportSlots gw pg beyond isOffline now rid rows (h, be)) = Inr rep"
    by (simp add: bulkImportSlots_def Let_def issue_def split: option.split prod.split)
  have 2: "isOffline \<longrightarrow> bulkImportSlots gw pg beyond isOffline now rid rows (h, be)
         = ((h, be), Inr \<lparr>success = 0, errors = [OfflineUnavailable]\<rparr>)"
    by (simp add: bulkImportSlots_def)
  have 3: "rid \<notin> set (b_routines be) \<longrightarrow> bulkImportRoutineSlots pg beyond rid rows be
         = (be, \<lparr>success = 0, errors = [InvalidRoutineId]\<rparr>)"
    by (simp add: bulkImportRoutineSlots_def)
  note 4 = service_counts[of rid be pg beyond rows msg]
  note 5 = service_inserts[of be pg beyond rid rows, unfolded fromRowOf_def]
  note 6 = convert_unchanged[of t beyond]
  show ?thesis using 1 2 3 4 5 6 by blast
qed


text \<open>An offline import, an unknown routine, a row that is inserted, a database whose two
  inserts fail, and a time without AM or PM.\<close>

lemma bulk_import_reports_example:
  "bulkImportSlots okGateway examplePostgres id True 0 ''R1'' [importRow ''Monday'' ''09:00'' ''10:00'']
       (emptyHook, exampleBackend)
     = ((emptyHook, exampleBackend), Inr \<lparr>success = 0, errors = [OfflineUnavailable]\<rparr>)
   \<and> bulkImportRoutineSlots examplePostgres id ''R9'' [importRow ''Monday'' ''09:00'' ''10:00''] exampleBackend
     = (exampleBackend, \<lparr>success = 0, errors = [InvalidRoutineId]\<rparr>)
   \<and> success (snd (bulkImportRoutineSlots examplePostgres id ''R1'' [importRow ''Monday'' ''09:00'' ''10:00''] exampleBackend))
      + length (errors (snd (bulkImportRoutineSlots examplePostgres id ''R1'' [importRow ''Monday'' ''09:00'' ''10:00''] exampleBackend)))
      = 1
   \<and> success (snd (bulkImportRoutineSlots (examplePostgres\<lparr>insert_error := Some ''e1'', fallback_error := Some ''e2''\<rparr>)
         id ''R1'' [importRow ''Monday'' ''09:00'' ''10:00''] exampleBackend)) = 0
   \<and> convertTo24HourFormat id ''09:00'' = ''09:00''"
  using bulk_import_reports[of okGateway examplePostgres id True 0 "''R1''"
          "[importRow ''Monday'' ''09:00'' ''10:00'']" emptyHook exampleBackend "''e2''" "''09:00''"]
        bulk_import_reports[of okGateway examplePostgres id True 0 "''R9''"
          "[importRow ''Monday'' ''09:00'' ''10:00'']" emptyHook exampleBackend "''e2''" "''09:00''"]
        bulk_import_reports[of okGateway "examplePostgres\<lparr>insert_error := Some ''e1'', fallback_error := Some ''e2''\<rparr>"
          id True 0 "''R1''" "[importRow ''Monday'' ''09:00'' ''10:00'']" emptyHook exampleBackend "''e2''" "''09:00''"]
  by (simp add: exampleBackend_def examplePostgres_def)

text \<open>
  C10. The time \<open>ab:cd PM\<close> cannot be parsed, yet nothing throws and the \<^verbatim>\<open>catch\<close> that
  returns the original string is not reached: the hours and the minutes are \<^verbatim>\<open>NaN\<close>, and
  the row reaches the insert with the start time \<open>NaN:NaN:00\<close>.
\<close>

theorem unparseable_time_is_rewritten:
  "convertTo24HourFormat id ''ab:cd PM'' = ''NaN:NaN:00''
   \<and> map c_start_time (b_slots (fst (bulkImportRoutineSlots examplePostgres id ''R1''
         [importRow ''Monday'' ''ab:cd PM'' ''10:00''] exampleBackend))) = [''NaN:NaN:00'']"
  by (simp add: bulkImportRoutineSlots_def zip1 del: upt.simps length_Cons list.size,
      simp add: processRow_def resolveCourse_def resolveTeacher_def importRow_def orNull_def trim_def isSpace_def
        conflicts_def examplePostgres_def exampleBackend_def Let_def
        convertTo24HourFormat_def js_Number_def toUpperCase_def toString_def padStart2_def isDigit_def)

end
